theory Spec2Isabelle
  imports Main "HOL-Library.Sublist"
begin

section \<open>Shared vocabulary: HTTP requests, response writers, JSON values\<close>

text \<open>
  The repository holds two routers: the public package \<open>gofsen\<close> (routes in a slice,
  parameterised templates, middleware driven by a cursor in the context) and the
  application's package \<open>internal/router\<close> (routes in a map per method, middleware as
  handler transformers, structured diagnostics). Both sit on \<open>net/http\<close>, of which the
  model keeps what the routers touch.

  A request carries its method, \<open>URL.Path\<close>, \<open>URL.RawQuery\<close> and its headers;
  \<open>Header.Get\<close> yields the empty string for an absent header.
\<close>

record http_Request =
  Method :: string
  URL_Path :: string
  URL_RawQuery :: string
  Header :: "string \<rightharpoonup> string"

definition Header_Get :: "http_Request \<Rightarrow> string \<Rightarrow> string" where
  "Header_Get req key = (case Header req key of None \<Rightarrow> [] | Some v \<Rightarrow> v)"

text \<open>
  JSON values as \<open>encoding/json\<close> writes them. The member list of an object stands for
  its key/value pairs; the order of members on the wire is not modelled.
\<close>

datatype json =
    JString string
  | JInt int
  | JArray "json list"
  | JObject "(string \<times> json) list"

fun json_keys :: "json \<Rightarrow> string set" where
  "json_keys (JObject members) = fst ` set members"
| "json_keys _ = {}"

fun json_member :: "json \<Rightarrow> string \<Rightarrow> json option" where
  "json_member (JObject members) key = map_of members key"
| "json_member _ key = None"

text \<open>
  A response writer is observed through its header map, the sequence of every
  \<open>WriteHeader\<close> call (the first one fixes the status of the response; \<open>net/http\<close>
  ignores the later ones) and the sequence of the bodies written. Writing a body before
  any \<open>WriteHeader\<close> sends the implicit status 200.
\<close>

record http_ResponseWriter =
  header :: "string \<rightharpoonup> string"
  codes :: "nat list"
  written :: "json list"

definition Header_Set :: "http_ResponseWriter \<Rightarrow> string \<Rightarrow> string \<Rightarrow> http_ResponseWriter" where
  "Header_Set w key v = w\<lparr>header := (header w)(key \<mapsto> v)\<rparr>"

definition WriteHeader :: "http_ResponseWriter \<Rightarrow> nat \<Rightarrow> http_ResponseWriter" where
  "WriteHeader w code = w\<lparr>codes := codes w @ [code]\<rparr>"

definition Encode :: "http_ResponseWriter \<Rightarrow> json \<Rightarrow> http_ResponseWriter" where
  "Encode w data =
     w\<lparr>codes := (if codes w = [] then [200] else codes w), written := written w @ [data]\<rparr>"

definition new_writer :: http_ResponseWriter where
  "new_writer = \<lparr>header = Map.empty, codes = [], written = []\<rparr>"

text \<open>
  A Go function of type \<open>func(*Context)\<close> either returns or panics; in both cases the
  effects it had on the context stay. \<open>Panicked v c\<close> carries the panic value as \<open>%v\<close>
  prints it and the context as the panic left it.
\<close>

datatype 'c outcome = Returned 'c | Panicked string 'c

section \<open>Package gofsen: pattern compilation\<close>

text \<open>
  Templates are compiled with Go's \<open>regexp\<close>. The model covers the patterns made of
  literal bytes and of the group \<open>([^/]+)\<close> that \<open>convertPathToRegex\<close> inserts:
  \<open>Lit c\<close> matches the byte \<open>c\<close>, \<open>Seg\<close> is the capturing group \<open>([^/]+)\<close>, and a
  compiled pattern is the token list between \<open>^\<close> and \<open>$\<close>. A byte with a meaning in
  regular-expression syntax, or outside ASCII, is not a literal of the fragment.
\<close>

datatype tok = Lit char | Seg

type_synonym Regexp = "tok list"

definition regexp_meta :: "char \<Rightarrow> bool" where
  "regexp_meta c \<longleftrightarrow> c \<in> set (CHR 0x5C # ''.+*?()|[]{}^$'') \<or> (128::nat) \<le> of_char c"

definition seg_source :: string where
  "seg_source = ''([^/]+)''"

function tokenize :: "string \<Rightarrow> Regexp option" where
  "tokenize s =
     (if s = [] then Some []
      else if take 7 s = seg_source then map_option ((#) Seg) (tokenize (drop 7 s))
      else if regexp_meta (hd s) then None
      else map_option ((#) (Lit (hd s))) (tokenize (tl s)))"
  by pat_completeness auto
termination
  by (relation "measure length") auto

declare tokenize.simps [simp del]

text \<open>
  \<open>regexp.Compile\<close> on the fragment: the source must be \<open>^\<close>, tokens, \<open>$\<close>. Every such
  source is a valid expression, so within the fragment compilation never fails; \<open>None\<close>
  says that the source lies outside the fragment and the model has no answer for it.
\<close>

definition regexp_Compile :: "string \<Rightarrow> Regexp option" where
  "regexp_Compile src =
     (case src of
        [] \<Rightarrow> None
      | c # rest \<Rightarrow>
          if c = CHR ''^'' \<and> rest \<noteq> [] \<and> last rest = CHR ''$'' then tokenize (butlast rest)
          else None)"

text \<open>
  Matching an anchored token list against the whole input, leftmost-first as Go's
  \<open>regexp\<close> does: the group is greedy, it takes the longest run of bytes other than
  \<open>/\<close> first and gives bytes back only when the rest of the pattern fails.
  \<open>match_toks\<close> returns the captures, \<open>match_seg ts acc s\<close> is inside a group that has
  consumed \<open>acc\<close> already.
\<close>

fun match_toks :: "Regexp \<Rightarrow> string \<Rightarrow> string list option"
  and match_seg :: "Regexp \<Rightarrow> string \<Rightarrow> string \<Rightarrow> string list option" where
  "match_toks [] s = (if s = [] then Some [] else None)"
| "match_toks (Lit c # ts) s =
     (case s of [] \<Rightarrow> None | x # xs \<Rightarrow> if x = c then match_toks ts xs else None)"
| "match_toks (Seg # ts) s = match_seg ts [] s"
| "match_seg ts acc [] =
     (if acc = [] then None else map_option ((#) acc) (match_toks ts []))"
| "match_seg ts acc (x # xs) =
     (if x = CHR ''/'' then
        (if acc = [] then None else map_option ((#) acc) (match_toks ts (x # xs)))
      else
        (case match_seg ts (acc @ [x]) xs of
           Some caps \<Rightarrow> Some caps
         | None \<Rightarrow> if acc = [] then None else map_option ((#) acc) (match_toks ts (x # xs))))"

text \<open>
  \<open>FindStringSubmatch\<close>: \<open>nil\<close> when the pattern does not match, else the whole match
  followed by the text of each group.
\<close>

definition FindStringSubmatch :: "Regexp \<Rightarrow> string \<Rightarrow> string list option" where
  "FindStringSubmatch pattern s = map_option ((#) s) (match_toks pattern s)"

text \<open>
  \<open>paramRegex.FindAllStringSubmatch(path, -1)\<close> for \<open>paramRegex = :([^/]+)\<close>: the
  successive non-overlapping matches, each as the pair of the whole match and of the name
  captured. A colon followed by \<open>/\<close> or by the end of the template is no match.
\<close>

function FindAllParams :: "string \<Rightarrow> (string \<times> string) list" where
  "FindAllParams [] = []"
| "FindAllParams (c # cs) =
     (if c = CHR '':'' \<and> takeWhile (\<lambda>x. x \<noteq> CHR ''/'') cs \<noteq> [] then
        (c # takeWhile (\<lambda>x. x \<noteq> CHR ''/'') cs, takeWhile (\<lambda>x. x \<noteq> CHR ''/'') cs)
          # FindAllParams (dropWhile (\<lambda>x. x \<noteq> CHR ''/'') cs)
      else FindAllParams cs)"
  by pat_completeness auto
termination
  by (relation "measure length") (auto simp: less_Suc_eq_le length_dropWhile_le)

text \<open>\<open>strings.Replace(s, old, new, 1)\<close>: the first occurrence of \<open>old\<close> is replaced.\<close>

fun Replace_first :: "string \<Rightarrow> string \<Rightarrow> string \<Rightarrow> string" where
  "Replace_first [] old new = (if old = [] then new else [])"
| "Replace_first (c # cs) old new =
     (if take (length old) (c # cs) = old then new @ drop (length old) (c # cs)
      else c # Replace_first cs old new)"

text \<open>
  \<^verbatim>\<open>
  func convertPathToRegex(path string) (*regexp.Regexp, []string) {
      if !strings.Contains(path, ":") { return nil, nil }
      var params []string
      regexPath := path
      paramRegex := regexp.MustCompile(`:([^/]+)`)
      matches := paramRegex.FindAllStringSubmatch(path, -1)
      for _, match := range matches {
          params = append(params, match[1])
          regexPath = strings.Replace(regexPath, match[0], "([^/]+)", 1)
      }
      pattern, err := regexp.Compile("^" + regexPath + "$")
      if err != nil { return nil, nil }
      return pattern, params
  }
  \<close>
  The result is \<open>Inl Unmodelled\<close> when the expression built lies outside the fragment;
  the branch \<open>err != nil\<close> belongs to such templates only.
\<close>

datatype unmodelled = Unmodelled string

fun convert_loop :: "(string \<times> string) list \<Rightarrow> string list \<Rightarrow> string \<Rightarrow> string list \<times> string" where
  "convert_loop [] params regexPath = (params, regexPath)"
| "convert_loop (match # matches) params regexPath =
     convert_loop matches (params @ [snd match]) (Replace_first regexPath (fst match) seg_source)"

definition convertPathToRegex :: "string \<Rightarrow> unmodelled + (Regexp option \<times> string list)" where
  "convertPathToRegex path =
     (if CHR '':'' \<notin> set path then Inr (None, [])
      else
        (case convert_loop (FindAllParams path) [] path of
           (params, regexPath) \<Rightarrow>
             (case regexp_Compile (''^'' @ regexPath @ ''$'') of
                None \<Rightarrow> Inl (Unmodelled regexPath)
              | Some pattern \<Rightarrow> Inr (Some pattern, params))))"

section \<open>Package gofsen: routes, contexts and the router\<close>

text \<open>
  \<^verbatim>\<open>
  type Route struct {
      Method string; Path string; Handler HandlerFunc
      Pattern *regexp.Regexp; Params []string
  }
  \<close>
  Resolution never calls the handler, so the record leaves its type open; the router
  instantiates it with \<open>HandlerFunc\<close>.
\<close>

record 'h Route =
  Method :: string
  Path :: string
  Handler :: 'h
  Pattern :: "Regexp option"
  Params :: "string list"

text \<open>
  The context of a request. Its field \<open>middleware\<close>, the chain of the request, is fixed
  by \<open>ServeHTTP\<close> before the first \<open>Next\<close> and is passed to \<open>Next\<close> beside the context;
  the cursor \<open>middlewareIndex\<close> is part of the state.
\<close>

record Context =
  Request :: http_Request
  ResponseWriter :: http_ResponseWriter
  Params :: "string \<rightharpoonup> string"
  Query :: "string \<rightharpoonup> string"
  middlewareIndex :: int

text \<open>
  \<open>HandlerFunc\<close> and \<open>MiddlewareFunc\<close> are both \<open>func(*Context)\<close>. The first argument
  of the model's function is the method \<open>c.Next\<close> of the context it runs on, to be applied
  to the context as it is at the time of the call.
\<close>

type_synonym MiddlewareFunc = "(Context \<Rightarrow> Context outcome) \<Rightarrow> Context \<Rightarrow> Context outcome"

type_synonym HandlerFunc = MiddlewareFunc

record RouteGroup =
  prefix :: string
  group_middlewares :: "MiddlewareFunc list"

record Router =
  routes :: "HandlerFunc Route list"
  middlewares :: "MiddlewareFunc list"
  groups :: "string \<rightharpoonup> RouteGroup"

definition New :: Router where
  "New = \<lparr>routes = [], middlewares = [], groups = Map.empty\<rparr>"

definition Use :: "Router \<Rightarrow> MiddlewareFunc \<Rightarrow> Router" where
  "Use r middleware = r\<lparr>middlewares := middlewares r @ [middleware]\<rparr>"

text \<open>
  \<open>Group\<close> returns the new group and records it in the router; nothing in the package
  reads \<open>r.groups\<close> afterwards.
\<close>

definition Group :: "Router \<Rightarrow> string \<Rightarrow> Router \<times> RouteGroup" where
  "Group r pre =
     (let group = \<lparr>prefix = pre, group_middlewares = []\<rparr>
      in (r\<lparr>groups := (groups r)(pre \<mapsto> group)\<rparr>, group))"

text \<open>
  \<^verbatim>\<open>
  func (r *Router) addRoute(method, path string, handler HandlerFunc) {
      pattern, params := convertPathToRegex(path)
      route := Route{Method: method, Path: path, Handler: handler,
                     Pattern: pattern, Params: params}
      r.routes = append(r.routes, route)
  }
  \<close>
\<close>

definition addRoute :: "Router \<Rightarrow> string \<Rightarrow> string \<Rightarrow> HandlerFunc \<Rightarrow> unmodelled + Router" where
  "addRoute r method path handler =
     (case convertPathToRegex path of
        Inl u \<Rightarrow> Inl u
      | Inr (pattern, params) \<Rightarrow>
          Inr (r\<lparr>routes := routes r @
                 [\<lparr>Method = method, Path = path, Handler = handler,
                   Pattern = pattern, Params = params\<rparr>]\<rparr>))"

definition GET :: "Router \<Rightarrow> string \<Rightarrow> HandlerFunc \<Rightarrow> unmodelled + Router" where
  "GET r path handler = addRoute r ''GET'' path handler"

definition POST :: "Router \<Rightarrow> string \<Rightarrow> HandlerFunc \<Rightarrow> unmodelled + Router" where
  "POST r path handler = addRoute r ''POST'' path handler"

text \<open>
  The methods of a group: \<open>Use\<close> appends to the group's own list, the registrations add
  the prefixed path to the router the group belongs to.
  \<^verbatim>\<open>
  func (g *RouteGroup) Use(middleware MiddlewareFunc) {
      g.middlewares = append(g.middlewares, middleware)
  }
  func (g *RouteGroup) GET(path string, handler HandlerFunc) {
      g.router.addRoute("GET", g.prefix+path, handler)
  }
  \<close>
\<close>

definition RouteGroup_Use :: "RouteGroup \<Rightarrow> MiddlewareFunc \<Rightarrow> RouteGroup" where
  "RouteGroup_Use g middleware = g\<lparr>group_middlewares := group_middlewares g @ [middleware]\<rparr>"

definition RouteGroup_GET :: "Router \<Rightarrow> RouteGroup \<Rightarrow> string \<Rightarrow> HandlerFunc \<Rightarrow> unmodelled + Router" where
  "RouteGroup_GET r g path handler = addRoute r ''GET'' (prefix g @ path) handler"

text \<open>
  \<^verbatim>\<open>
  for i, param := range route.Params {
      if i+1 < len(matches) { params[param] = matches[i+1] }
  }
  \<close>
\<close>

fun bind_params :: "nat \<Rightarrow> string list \<Rightarrow> string list \<Rightarrow> (string \<rightharpoonup> string) \<Rightarrow> (string \<rightharpoonup> string)" where
  "bind_params i [] matches params = params"
| "bind_params i (param # rest) matches params =
     bind_params (i + 1) rest matches
       (if i + 1 < length matches then params(param \<mapsto> matches ! (i + 1)) else params)"

text \<open>
  \<^verbatim>\<open>
  func (r *Router) findRoute(method, path string) (*Route, map[string]string) {
      for _, route := range r.routes {
          if route.Method == method {
              if route.Pattern != nil {
                  if matches := route.Pattern.FindStringSubmatch(path); matches != nil {
                      params := make(map[string]string)
                      ... bind the parameters ...
                      return &route, params
                  }
              } else if route.Path == path {
                  return &route, make(map[string]string)
              }
          }
      }
      return nil, nil
  }
  \<close>
\<close>

fun findRoute_loop :: "'h Route list \<Rightarrow> string \<Rightarrow> string \<Rightarrow> ('h Route \<times> (string \<rightharpoonup> string)) option" where
  "findRoute_loop [] method path = None"
| "findRoute_loop (route # rest) method path =
     (if Route.Method route = method then
        (case Pattern route of
           Some pattern \<Rightarrow>
             (case FindStringSubmatch pattern path of
                Some matches \<Rightarrow> Some (route, bind_params 0 (Route.Params route) matches Map.empty)
              | None \<Rightarrow> findRoute_loop rest method path)
         | None \<Rightarrow>
             if Path route = path then Some (route, Map.empty)
             else findRoute_loop rest method path)
      else findRoute_loop rest method path)"

definition findRoute :: "Router \<Rightarrow> string \<Rightarrow> string \<Rightarrow> (HandlerFunc Route \<times> (string \<rightharpoonup> string)) option" where
  "findRoute r method path = findRoute_loop (routes r) method path"

text \<open>
  \<^verbatim>\<open>
  func (c *Context) Next() {
      c.middlewareIndex++
      if c.middlewareIndex < len(c.middleware) {
          c.middleware[c.middlewareIndex](c)
      }
  }
  \<close>
  A negative index makes the slice access panic. A middleware calls \<open>Next\<close> on the
  context it was given, whose cursor, assigned by \<open>Next\<close> alone, is then at or beyond
  the middleware's own position: these are the calls that the model covers. A call on a
  stale copy of the context with an earlier cursor would re-enter the chain, possibly
  without end; the function that the model hands to the middleware answers such a call
  with a panic of its own, and the recursion is well-founded on the distance of the cursor
  to the end of the chain.
\<close>

function Next :: "MiddlewareFunc list \<Rightarrow> Context \<Rightarrow> Context outcome" where
  "Next middleware c =
     (let c' = c\<lparr>middlewareIndex := middlewareIndex c + 1\<rparr> in
      if middlewareIndex c' < int (length middleware) then
        (if middlewareIndex c' < 0 then Panicked ''runtime error: index out of range'' c'
         else (middleware ! nat (middlewareIndex c'))
                (\<lambda>d. if middlewareIndex c' \<le> middlewareIndex d then Next middleware d
                     else Panicked ''cursor moved backwards'' d)
                c')
      else Returned c')"
  by pat_completeness auto
termination
  by (relation "measure (\<lambda>(ms, c). nat (int (length ms) - middlewareIndex c))") auto

declare Next.simps [simp del]

text \<open>\<open>Status\<close>, \<open>JSON\<close> and \<open>Error\<close> of the context; \<open>now\<close> is the reading of
  \<open>time.Now().Format(time.RFC3339)\<close>.\<close>

definition Status :: "Context \<Rightarrow> nat \<Rightarrow> Context" where
  "Status c code = c\<lparr>ResponseWriter := WriteHeader (ResponseWriter c) code\<rparr>"

definition JSON :: "Context \<Rightarrow> json \<Rightarrow> Context" where
  "JSON c data =
     c\<lparr>ResponseWriter :=
         Encode (Header_Set (ResponseWriter c) ''Content-Type'' ''application/json'') data\<rparr>"

definition Error :: "string \<Rightarrow> Context \<Rightarrow> nat \<Rightarrow> string \<Rightarrow> Context" where
  "Error now c code message =
     JSON (Status c code)
       (JObject [(''error'', JString message),
                 (''status'', JInt (int code)),
                 (''path'', JString (URL_Path (Request c))),
                 (''method'', JString (http_Request.Method (Request c))),
                 (''time'', JString now)])"

text \<open>
  \<^verbatim>\<open>
  func parseQuery(rawQuery string) map[string]string {
      query := make(map[string]string)
      if rawQuery == "" { return query }
      pairs := strings.Split(rawQuery, "&")
      for _, pair := range pairs {
          parts := strings.SplitN(pair, "=", 2)
          if len(parts) == 2 { query[parts[0]] = parts[1] }
      }
      return query
  }
  \<close>
\<close>

fun Split :: "char \<Rightarrow> string \<Rightarrow> string list" where
  "Split sep [] = [] # []"
| "Split sep (c # cs) =
     (if c = sep then [] # Split sep cs
      else (case Split sep cs of [] \<Rightarrow> [c] # [] | x # xs \<Rightarrow> (c # x) # xs))"

fun parseQuery_loop :: "string list \<Rightarrow> (string \<rightharpoonup> string) \<Rightarrow> (string \<rightharpoonup> string)" where
  "parseQuery_loop [] query = query"
| "parseQuery_loop (pair # pairs) query =
     parseQuery_loop pairs
       (if CHR ''='' \<in> set pair
        then query(takeWhile (\<lambda>x. x \<noteq> CHR ''='') pair \<mapsto> tl (dropWhile (\<lambda>x. x \<noteq> CHR ''='') pair))
        else query)"

definition parseQuery :: "string \<Rightarrow> (string \<rightharpoonup> string)" where
  "parseQuery rawQuery =
     (if rawQuery = [] then Map.empty else parseQuery_loop (Split CHR ''&'' rawQuery) Map.empty)"

text \<open>
  \<^verbatim>\<open>
  func (r *Router) ServeHTTP(w http.ResponseWriter, req *http.Request) {
      ctx := &Context{Request: req, ResponseWriter: w, Params: make(map[string]string),
                      Query: parseQuery(req.URL.RawQuery),
                      middleware: r.middlewares, middlewareIndex: -1}
      route, params := r.findRoute(req.Method, req.URL.Path)
      if route == nil {
          ctx.Status(404).JSON(map[string]string{"error": "Route not found"})
          return
      }
      ctx.Params = params
      finalHandler := func(c *Context) { route.Handler(c) }
      ctx.middleware = append(ctx.middleware, finalHandler)
      ctx.Next()
  }
  \<close>
\<close>

definition ServeHTTP :: "Router \<Rightarrow> http_ResponseWriter \<Rightarrow> http_Request \<Rightarrow> Context outcome" where
  "ServeHTTP r w req =
     (let ctx = \<lparr>Request = req, ResponseWriter = w, Params = Map.empty,
                Query = parseQuery (URL_RawQuery req), middlewareIndex = - 1\<rparr>
      in case findRoute r (http_Request.Method req) (URL_Path req) of
           None \<Rightarrow>
             Returned (JSON (Status ctx 404) (JObject [(''error'', JString ''Route not found'')]))
         | Some (route, params) \<Rightarrow>
             Next (middlewares r @ [Handler route]) (ctx\<lparr>Params := params\<rparr>))"

section \<open>Package gofsen: built-in middleware\<close>

text \<open>
  \<^verbatim>\<open>
  func Logger() MiddlewareFunc {
      return func(c *Context) {
          start := time.Now(); c.Next(); duration := time.Since(start)
          log.Printf("%s %s - %v", c.Request.Method, c.Request.URL.Path, duration)
      }
  }
  func Recovery() MiddlewareFunc {
      return func(c *Context) {
          defer func() {
              if r := recover(); r != nil {
                  log.Printf("PANIC: %v", r)
                  c.Error(500, "Internal Server Error")
              }
          }()
          c.Next()
      }
  }
  \<close>
  The process log is not part of the model. A panic below \<open>Logger\<close> skips its log line
  and goes on unwinding; \<open>Recovery\<close> stops it and answers on the context as the panic
  left it.
\<close>

definition Logger :: MiddlewareFunc where
  "Logger next c =
     (case next c of Returned c' \<Rightarrow> Returned c' | Panicked v c' \<Rightarrow> Panicked v c')"

definition Recovery :: "string \<Rightarrow> MiddlewareFunc" where
  "Recovery now next c =
     (case next c of
        Returned c' \<Rightarrow> Returned c'
      | Panicked v c' \<Rightarrow> Returned (Error now c' 500 ''Internal Server Error''))"

record CORSConfig =
  AllowOrigins :: "string list"
  AllowMethods :: "string list"
  AllowHeaders :: "string list"

fun Join :: "string list \<Rightarrow> string \<Rightarrow> string" where
  "Join [] sep = []"
| "Join [x] sep = x"
| "Join (x # y # ys) sep = x @ sep @ Join (y # ys) sep"

text \<open>
  \<^verbatim>\<open>
  func CORSWithConfig(config CORSConfig) MiddlewareFunc {
      return func(c *Context) {
          origin := c.Request.Header.Get("Origin")
          allowed := false
          for _, allowedOrigin := range config.AllowOrigins {
              if allowedOrigin == "*" || allowedOrigin == origin { allowed = true; break }
          }
          if allowed {
              if origin != "" {
                  c.ResponseWriter.Header().Set("Access-Control-Allow-Origin", origin)
              } else {
                  c.ResponseWriter.Header().Set("Access-Control-Allow-Origin", "*")
              }
          }
          c.ResponseWriter.Header().Set("Access-Control-Allow-Methods",
              strings.Join(config.AllowMethods, ", "))
          c.ResponseWriter.Header().Set("Access-Control-Allow-Headers",
              strings.Join(config.AllowHeaders, ", "))
          c.ResponseWriter.Header().Set("Access-Control-Allow-Credentials", "true")
          if c.Request.Method == "OPTIONS" { c.Status(204); return }
          c.Next()
      }
  }
  \<close>
\<close>

fun origin_allowed :: "string list \<Rightarrow> string \<Rightarrow> bool" where
  "origin_allowed [] origin = False"
| "origin_allowed (allowedOrigin # rest) origin =
     (if allowedOrigin = ''*'' \<or> allowedOrigin = origin then True
      else origin_allowed rest origin)"

definition set_header :: "Context \<Rightarrow> string \<Rightarrow> string \<Rightarrow> Context" where
  "set_header c key v = c\<lparr>ResponseWriter := Header_Set (ResponseWriter c) key v\<rparr>"

definition cors_headers :: "CORSConfig \<Rightarrow> Context \<Rightarrow> Context" where
  "cors_headers config c =
     (let origin = Header_Get (Request c) ''Origin'';
          allowed = origin_allowed (AllowOrigins config) origin;
          c1 = (if allowed then
                  (if origin \<noteq> [] then set_header c ''Access-Control-Allow-Origin'' origin
                   else set_header c ''Access-Control-Allow-Origin'' ''*'')
                else c);
          c2 = set_header c1 ''Access-Control-Allow-Methods'' (Join (AllowMethods config) '', '');
          c3 = set_header c2 ''Access-Control-Allow-Headers'' (Join (AllowHeaders config) '', '')
      in set_header c3 ''Access-Control-Allow-Credentials'' ''true'')"

definition CORSWithConfig :: "CORSConfig \<Rightarrow> MiddlewareFunc" where
  "CORSWithConfig config next c =
     (let c' = cors_headers config c
      in if http_Request.Method (Request c') = ''OPTIONS'' then Returned (Status c' 204)
         else next c')"

section \<open>Package types: the context of the application's router\<close>

text \<open>
  \<^verbatim>\<open>
  type Context struct { Request *http.Request; Writer http.ResponseWriter
                        Params map[string]string }
  type HandlerFunc func(*Context)
  type Middleware func(HandlerFunc) HandlerFunc

  func (c *Context) JSON(status int, data interface{}) error {
      c.Writer.Header().Set("Content-Type", "application/json")
      c.Writer.WriteHeader(status)
      return json.NewEncoder(c.Writer).Encode(data)
  }
  func (c *Context) Error(status int, message string) {
      c.JSON(status, map[string]string{"error": message})
  }
  \<close>
\<close>

record types_Context =
  ctx_Request :: http_Request
  Writer :: http_ResponseWriter
  ctx_Params :: "string \<rightharpoonup> string"

type_synonym types_HandlerFunc = "types_Context \<Rightarrow> types_Context outcome"

type_synonym types_Middleware = "types_HandlerFunc \<Rightarrow> types_HandlerFunc"

definition types_JSON :: "types_Context \<Rightarrow> nat \<Rightarrow> json \<Rightarrow> types_Context" where
  "types_JSON c status data =
     c\<lparr>Writer :=
         Encode (WriteHeader (Header_Set (Writer c) ''Content-Type'' ''application/json'') status)
           data\<rparr>"

definition types_Error :: "types_Context \<Rightarrow> nat \<Rightarrow> string \<Rightarrow> types_Context" where
  "types_Error c status message = types_JSON c status (JObject [(''error'', JString message)])"

section \<open>Package utils: the structured error response\<close>

text \<open>
  What a request handler reads from outside the program: the clock as
  \<open>time.Now().Format(time.RFC3339)\<close> renders it, the text of \<open>debug.Stack()\<close> and the
  table \<open>http.StatusText\<close> of the standard library.
\<close>

record env =
  now :: string
  stack :: string
  StatusText :: "nat \<Rightarrow> string"

text \<open>
  \<^verbatim>\<open>
  type LogLevel int
  const ( LogDebug LogLevel = iota; LogInfo; LogWarn; LogError )
  type GofsenLogger struct { Level LogLevel; EnableDetailedErrors bool }
  var defaultLogger = &GofsenLogger{ Level: LogInfo, EnableDetailedErrors: true }
  \<close>
  \<open>GetLogger\<close> hands out the pointer to \<open>defaultLogger\<close>, whose fields are exported;
  the functions that call \<open>GetLogger\<close> take the logger's current value as \<open>gl\<close>.
\<close>

definition LogDebug :: int where "LogDebug = 0"
definition LogInfo :: int where "LogInfo = 1"
definition LogWarn :: int where "LogWarn = 2"
definition LogError :: int where "LogError = 3"

record GofsenLogger =
  Level :: int
  EnableDetailedErrors :: bool

definition defaultLogger :: GofsenLogger where
  "defaultLogger = \<lparr>Level = LogInfo, EnableDetailedErrors = True\<rparr>"

text \<open>
  \<^verbatim>\<open>
  type ErrorResponse struct {
      Error     string `json:"error"`
      Message   string `json:"message,omitempty"`
      Path      string `json:"path"`
      Method    string `json:"method"`
      Timestamp string `json:"timestamp"`
      Code      int    `json:"code"`
      RequestID string `json:"request_id,omitempty"`
  }
  type DetailedErrorResponse struct {
      ErrorResponse
      Details interface{}       `json:"details,omitempty"`
      Trace   string            `json:"trace,omitempty"`
      Headers map[string]string `json:"headers,omitempty"`
  }
  \<close>
  A field tagged \<open>omitempty\<close> is left out of the object when it is the empty string, a
  nil interface or an empty map.
\<close>

record ErrorResponse =
  err_Error :: string
  err_Message :: string
  err_Path :: string
  err_Method :: string
  err_Timestamp :: string
  err_Code :: nat
  err_RequestID :: string

record DetailedErrorResponse = ErrorResponse +
  Details :: "json option"
  Trace :: string
  Headers :: "(string \<times> string) list"

definition omitempty_string :: "string \<Rightarrow> string \<Rightarrow> (string \<times> json) list" where
  "omitempty_string key v = (if v = [] then [] else [(key, JString v)])"

definition ErrorResponse_members :: "'a ErrorResponse_scheme \<Rightarrow> (string \<times> json) list" where
  "ErrorResponse_members e =
     [(''error'', JString (err_Error e))]
     @ omitempty_string ''message'' (err_Message e)
     @ [(''path'', JString (err_Path e)),
        (''method'', JString (err_Method e)),
        (''timestamp'', JString (err_Timestamp e)),
        (''code'', JInt (int (err_Code e)))]
     @ omitempty_string ''request_id'' (err_RequestID e)"

definition marshal_ErrorResponse :: "ErrorResponse \<Rightarrow> json" where
  "marshal_ErrorResponse e = JObject (ErrorResponse_members e)"

definition marshal_DetailedErrorResponse :: "DetailedErrorResponse \<Rightarrow> json" where
  "marshal_DetailedErrorResponse d =
     JObject (ErrorResponse_members d
       @ (case Details d of None \<Rightarrow> [] | Some v \<Rightarrow> [(''details'', v)])
       @ omitempty_string ''trace'' (Trace d)
       @ (if Headers d = [] then []
          else [(''headers'', JObject (map (\<lambda>(k, v). (k, JString v)) (Headers d)))]))"

text \<open>
  \<^verbatim>\<open>
  func maskAuthHeader(auth string) string {
      if auth == "" { return "" }
      if len(auth) <= 10 { return "***" }
      return auth[:10] + "***"
  }
  \<close>
\<close>

definition maskAuthHeader :: "string \<Rightarrow> string" where
  "maskAuthHeader auth =
     (if auth = [] then [] else if length auth \<le> 10 then ''***'' else take 10 auth @ ''***'')"

text \<open>
  \<^verbatim>\<open>
  func (gl *GofsenLogger) SendDetailedError(ctx *types.Context, code int, message string,
                                            details interface{}) {
      errorResp := ErrorResponse{
          Error: http.StatusText(code), Message: message,
          Path: ctx.Request.URL.Path, Method: ctx.Request.Method,
          Timestamp: time.Now().Format(time.RFC3339), Code: code,
      }
      if gl.EnableDetailedErrors && gl.Level <= LogDebug {
          detailedResp := DetailedErrorResponse{
              ErrorResponse: errorResp, Details: details,
              Headers: map[string]string{
                  "User-Agent":    ctx.Request.Header.Get("User-Agent"),
                  "Content-Type":  ctx.Request.Header.Get("Content-Type"),
                  "Authorization": maskAuthHeader(ctx.Request.Header.Get("Authorization")),
                  "Origin":        ctx.Request.Header.Get("Origin"),
              },
          }
          ctx.Writer.Header().Set("Content-Type", "application/json")
          ctx.Writer.WriteHeader(code)
          json.NewEncoder(ctx.Writer).Encode(detailedResp)
          return
      }
      ctx.Writer.Header().Set("Content-Type", "application/json")
      ctx.Writer.WriteHeader(code)
      json.NewEncoder(ctx.Writer).Encode(errorResp)
  }
  \<close>
\<close>

definition SendDetailedError :: "GofsenLogger \<Rightarrow> env \<Rightarrow> types_Context \<Rightarrow> nat \<Rightarrow> string \<Rightarrow> json option \<Rightarrow> types_Context" where
  "SendDetailedError gl e ctx code message details =
     (let errorResp = \<lparr>err_Error = StatusText e code, err_Message = message,
                       err_Path = URL_Path (ctx_Request ctx),
                       err_Method = http_Request.Method (ctx_Request ctx),
                       err_Timestamp = now e, err_Code = code, err_RequestID = []\<rparr>
      in if EnableDetailedErrors gl \<and> Level gl \<le> LogDebug then
           (let detailedResp =
                  ErrorResponse.extend errorResp
                    (DetailedErrorResponse.fields details []
                       [(''User-Agent'', Header_Get (ctx_Request ctx) ''User-Agent''),
                        (''Content-Type'', Header_Get (ctx_Request ctx) ''Content-Type''),
                        (''Authorization'',
                           maskAuthHeader (Header_Get (ctx_Request ctx) ''Authorization'')),
                        (''Origin'', Header_Get (ctx_Request ctx) ''Origin'')])
            in ctx\<lparr>Writer :=
                  Encode (WriteHeader
                            (Header_Set (Writer ctx) ''Content-Type'' ''application/json'') code)
                    (marshal_DetailedErrorResponse detailedResp)\<rparr>)
         else
           ctx\<lparr>Writer :=
                 Encode (WriteHeader
                           (Header_Set (Writer ctx) ''Content-Type'' ''application/json'') code)
                   (marshal_ErrorResponse errorResp)\<rparr>)"

section \<open>Diagnostics: route suggestions (package utils)\<close>

text \<open>
  Go strings are byte sequences; \<open>len\<close>, \<open>s[:1]\<close> and \<open>s[len(s)-3:]\<close> count bytes, and so
  do \<open>length\<close>, \<open>take\<close> and \<open>drop\<close> on \<open>string\<close>.

  \<^verbatim>\<open>
  func SuggestSimilarRoutes(requestedPath string, availableRoutes []string) []string {
      suggestions := []string{}
      for _, route := range availableRoutes {
          if len(route) > 0 && len(requestedPath) > 0 {
              if route[:1] == requestedPath[:1] ||
                  (len(route) > 3 && len(requestedPath) > 3 &&
                   route[len(route)-3:] == requestedPath[len(requestedPath)-3:]) {
                  suggestions = append(suggestions, route)
              }
          }
      }
      if len(suggestions) > 3 { suggestions = suggestions[:3] }
      return suggestions
  }
  \<close>
  The loop is \<open>suggest_loop\<close>, with the slice being built as its accumulator.
\<close>

fun suggest_loop :: "string \<Rightarrow> string list \<Rightarrow> string list \<Rightarrow> string list" where
  "suggest_loop requestedPath [] suggestions = suggestions"
| "suggest_loop requestedPath (route # rest) suggestions =
     suggest_loop requestedPath rest
       (if length route > 0 \<and> length requestedPath > 0 then
          (if take 1 route = take 1 requestedPath \<or>
              (length route > 3 \<and> length requestedPath > 3 \<and>
               drop (length route - 3) route = drop (length requestedPath - 3) requestedPath)
           then suggestions @ [route] else suggestions)
        else suggestions)"

definition SuggestSimilarRoutes :: "string \<Rightarrow> string list \<Rightarrow> string list" where
  "SuggestSimilarRoutes requestedPath availableRoutes =
     (let suggestions = suggest_loop requestedPath availableRoutes [] in
      if length suggestions > 3 then take 3 suggestions else suggestions)"

text \<open>
  The eligibility rule in the words of the specification: a known path qualifies if it
  shares its first character with the requested path, or if both strings are longer than
  three characters and end in the same three characters.
\<close>

fun shares_first_char :: "string \<Rightarrow> string \<Rightarrow> bool" where
  "shares_first_char (x # a) (y # b) \<longleftrightarrow> x = y"
| "shares_first_char _ _ \<longleftrightarrow> False"

definition same_last_three :: "string \<Rightarrow> string \<Rightarrow> bool" where
  "same_last_three a b \<longleftrightarrow>
     length a > 3 \<and> length b > 3 \<and> take 3 (rev a) = take 3 (rev b)"

definition eligible :: "string \<Rightarrow> string \<Rightarrow> bool" where
  "eligible requestedPath route \<longleftrightarrow>
     shares_first_char route requestedPath \<or> same_last_three route requestedPath"

section \<open>Package middlewares: middleware of the application's router\<close>

text \<open>
  \<^verbatim>\<open>
  func RecoveryMiddleware(next types.HandlerFunc) types.HandlerFunc {
      return func(ctx *types.Context) {
          defer func() {
              if r := recover(); r != nil {
                  logger := utils.GetLogger()
                  err := fmt.Errorf("panic recovered: %v", r)
                  logger.LogServerError(ctx, err)
                  stackTrace := string(debug.Stack())
                  logger.SendDetailedError(ctx, http.StatusInternalServerError,
                      "Erreur interne du serveur",
                      map[string]interface{}{
                          "panic_message": fmt.Sprintf("%v", r),
                          "stack_trace":   stackTrace,
                          "recovery_note": "L'application a r\'ecup\'er\'e d'une erreur critique",
                      })
              }
          }()
          next(ctx)
      }
  }
  \<close>
  The accented letters of the source's messages are their UTF-8 bytes.
\<close>

definition e_acute :: string where
  "e_acute = [CHR 0xC3, CHR 0xA9]"

definition e_circ :: string where
  "e_circ = [CHR 0xC3, CHR 0xAA]"

definition apostrophe :: string where
  "apostrophe = [CHR 0x27]"

definition recovery_note :: string where
  "recovery_note =
     ''L'' @ apostrophe @ ''application a r'' @ e_acute @ ''cup'' @ e_acute @ ''r'' @ e_acute
       @ '' d'' @ apostrophe @ ''une erreur critique''"

definition RecoveryMiddleware :: "GofsenLogger \<Rightarrow> env \<Rightarrow> types_Middleware" where
  "RecoveryMiddleware gl e next ctx =
     (case next ctx of
        Returned ctx' \<Rightarrow> Returned ctx'
      | Panicked r ctx' \<Rightarrow>
          Returned (SendDetailedError gl e ctx' 500 ''Erreur interne du serveur''
            (Some (JObject [(''panic_message'', JString r),
                            (''stack_trace'', JString (stack e)),
                            (''recovery_note'', JString recovery_note)]))))"

text \<open>
  \<^verbatim>\<open>
  func LoggerMiddleware(next types.HandlerFunc) types.HandlerFunc {
      return func(ctx *types.Context) {
          start := time.Now()
          log.Printf("Started %s %s", ctx.Request.Method, ctx.Request.URL.Path)
          next(ctx)
          duration := time.Since(start)
          log.Printf("Completed in %v", duration)
      }
  }
  \<close>
\<close>

definition LoggerMiddleware :: types_Middleware where
  "LoggerMiddleware next ctx =
     (case next ctx of Returned ctx' \<Rightarrow> Returned ctx' | Panicked r ctx' \<Rightarrow> Panicked r ctx')"

text \<open>
  \<^verbatim>\<open>
  func AuthMiddleware(validator types.TokenValidator) types.Middleware {
      return func(next types.HandlerFunc) types.HandlerFunc {
          return func(ctx *types.Context) {
              logger := utils.GetLogger()
              token := ctx.Request.Header.Get("Authorization")
              if token == "" {
                  logger.LogAuthFailure(ctx, "Missing Authorization header")
                  logger.SendDetailedError(ctx, http.StatusUnauthorized,
                      "En-t\^ete Authorization manquant",
                      map[string]interface{}{
                          "required_format": "Authorization: Bearer <token>",
                          "example":         "Authorization: Bearer valid-token" })
                  return
              }
              if !validator.ValidateToken(token) {
                  logger.LogAuthFailure(ctx, "Invalid token")
                  logger.SendDetailedError(ctx, http.StatusUnauthorized,
                      "Token d'authentification invalide",
                      map[string]interface{}{
                          "token_format": "Bearer <token>",
                          "note": "V\'erifiez que votre token est valide et non expir\'e" })
                  return
              }
              next(ctx)
          }
      }
  }
  \<close>
\<close>

definition AuthMiddleware :: "(string \<Rightarrow> bool) \<Rightarrow> GofsenLogger \<Rightarrow> env \<Rightarrow> types_Middleware" where
  "AuthMiddleware ValidateToken gl e next ctx =
     (let token = Header_Get (ctx_Request ctx) ''Authorization'' in
      if token = [] then
        Returned (SendDetailedError gl e ctx 401 (''En-t'' @ e_circ @ ''te Authorization manquant'')
          (Some (JObject [(''required_format'', JString ''Authorization: Bearer <token>''),
                          (''example'', JString ''Authorization: Bearer valid-token'')])))
      else if \<not> ValidateToken token then
        Returned (SendDetailedError gl e ctx 401
          (''Token d'' @ apostrophe @ ''authentification invalide'')
          (Some (JObject [(''token_format'', JString ''Bearer <token>''),
                          (''note'', JString (''V'' @ e_acute
                             @ ''rifiez que votre token est valide et non expir'' @ e_acute))])))
      else next ctx)"

section \<open>Package router: the application's router\<close>

text \<open>
  \<^verbatim>\<open>
  type Router struct {
      routes      map[string]map[string]types.HandlerFunc
      middlewares []types.Middleware
  }
  type RouteGroup struct { prefix string; parent *Router; middlewares []types.Middleware }
  \<close>
  A Go map is an association list with distinct keys; the order of the list stands for the
  order in which \<open>range\<close> visits the map, which Go leaves unspecified, so that a statement
  about every router value is a statement about every order. Assignment to a key is
  \<open>assign\<close>. The parent of a group is passed beside it to the operations that change it.
  The route table leaves the handler type open, as lookups never call a handler.
\<close>

fun assign :: "'k \<Rightarrow> 'v \<Rightarrow> ('k \<times> 'v) list \<Rightarrow> ('k \<times> 'v) list" where
  "assign k v [] = [(k, v)]"
| "assign k v ((k', v') # rest) = (if k' = k then (k, v) # rest else (k', v') # assign k v rest)"

type_synonym 'h route_map = "(string \<times> (string \<times> 'h) list) list"

record router_Router =
  router_routes :: "types_HandlerFunc route_map"
  router_middlewares :: "types_Middleware list"

record router_RouteGroup =
  rg_prefix :: string
  rg_middlewares :: "types_Middleware list"

definition router_Group :: "router_Router \<Rightarrow> string \<Rightarrow> router_RouteGroup" where
  "router_Group r pre = \<lparr>rg_prefix = pre, rg_middlewares = []\<rparr>"

definition router_RouteGroup_Use :: "router_RouteGroup \<Rightarrow> types_Middleware list \<Rightarrow> router_RouteGroup" where
  "router_RouteGroup_Use g mws = g\<lparr>rg_middlewares := rg_middlewares g @ mws\<rparr>"

definition router_Use :: "router_Router \<Rightarrow> types_Middleware list \<Rightarrow> router_Router" where
  "router_Use r mw = r\<lparr>router_middlewares := router_middlewares r @ mw\<rparr>"

text \<open>
  \<^verbatim>\<open>
  func (r *Router) Handle(method, path string, handler types.HandlerFunc, key ...string) {
      if r.routes[method] == nil {
          r.routes[method] = make(map[string]types.HandlerFunc)
      }
      r.routes[method][path] = handler
  }
  \<close>
\<close>

definition Handle_routes :: "'h route_map \<Rightarrow> string \<Rightarrow> string \<Rightarrow> 'h \<Rightarrow> 'h route_map" where
  "Handle_routes rts method path handler =
     (let rts1 = (if map_of rts method = None then assign method [] rts else rts)
      in case map_of rts1 method of
           None \<Rightarrow> rts1
         | Some methodRoutes \<Rightarrow> assign method (assign path handler methodRoutes) rts1)"

definition router_Handle :: "router_Router \<Rightarrow> string \<Rightarrow> string \<Rightarrow> types_HandlerFunc \<Rightarrow> router_Router" where
  "router_Handle r method path handler =
     r\<lparr>router_routes := Handle_routes (router_routes r) method path handler\<rparr>"

text \<open>
  \<^verbatim>\<open>
  finalHandler := handler
  for i := len(g.middlewares) - 1; i >= 0; i-- {
      finalHandler = g.middlewares[i](finalHandler)
  }
  \<close>
  The loop of \<open>RouteGroup.Handle\<close>, and of \<open>ServeHTTP\<close> on the router's own list: \<open>i\<close>
  counts the middleware still to be wrapped around the handler, last one first.
\<close>

fun wrap_loop :: "nat \<Rightarrow> types_Middleware list \<Rightarrow> types_HandlerFunc \<Rightarrow> types_HandlerFunc" where
  "wrap_loop 0 mws finalHandler = finalHandler"
| "wrap_loop (Suc i) mws finalHandler = wrap_loop i mws ((mws ! i) finalHandler)"

definition wrap :: "types_Middleware list \<Rightarrow> types_HandlerFunc \<Rightarrow> types_HandlerFunc" where
  "wrap mws handler = wrap_loop (length mws) mws handler"

text \<open>
  \<^verbatim>\<open>
  func (g *RouteGroup) Handle(method, path string, handler types.HandlerFunc) {
      fullPath := g.prefix + path
      ... finalHandler as above ...
      g.parent.Handle(method, fullPath, finalHandler)
  }
  \<close>
\<close>

definition router_RouteGroup_Handle :: "router_Router \<Rightarrow> router_RouteGroup \<Rightarrow> string \<Rightarrow> string \<Rightarrow> types_HandlerFunc \<Rightarrow> router_Router" where
  "router_RouteGroup_Handle parent g method path handler =
     router_Handle parent method (rg_prefix g @ path) (wrap (rg_middlewares g) handler)"

text \<open>
  The two loops of \<open>ServeHTTP\<close> over the route table:
  \<^verbatim>\<open>
  pathExists := false
  allowedMethods := []string{}
  for method, routes := range r.routes {
      if _, exists := routes[req.URL.Path]; exists {
          pathExists = true
          allowedMethods = append(allowedMethods, method)
      }
  }
  availableRoutes := []string{}
  for _, routes := range r.routes {
      for path := range routes { availableRoutes = append(availableRoutes, path) }
  }
  \<close>
\<close>

fun allowed_loop :: "'h route_map \<Rightarrow> string \<Rightarrow> bool \<times> string list \<Rightarrow> bool \<times> string list" where
  "allowed_loop [] path st = st"
| "allowed_loop ((method, rts) # rest) path (pathExists, allowedMethods) =
     allowed_loop rest path
       (if map_of rts path \<noteq> None then (True, allowedMethods @ [method])
        else (pathExists, allowedMethods))"

fun available_loop :: "'h route_map \<Rightarrow> string list \<Rightarrow> string list" where
  "available_loop [] availableRoutes = availableRoutes"
| "available_loop ((method, rts) # rest) availableRoutes =
     available_loop rest (availableRoutes @ map fst rts)"

definition msg_405 :: string where
  "msg_405 = ''M'' @ e_acute @ ''thode HTTP non autoris'' @ e_acute @ ''e pour cette route''"

definition msg_404 :: string where
  "msg_404 = ''Route non trouv'' @ e_acute @ ''e''"

definition tip_404 :: string where
  "tip_404 = ''V'' @ e_acute @ ''rifiez l'' @ apostrophe @ ''URL et la m'' @ e_acute @ ''thode HTTP''"

text \<open>
  \<^verbatim>\<open>
  func (r *Router) ServeHTTP(w http.ResponseWriter, req *http.Request) {
      ctx := &types.Context{ Request: req, Writer: w }
      logger := utils.GetLogger()
      if methodRoutes, ok := r.routes[req.Method]; ok {
          if handler, ok := methodRoutes[req.URL.Path]; ok {
              finalHandler := handler
              for i := len(r.middlewares) - 1; i >= 0; i-- {
                  finalHandler = r.middlewares[i](finalHandler)
              }
              finalHandler(ctx)
              return
          }
      }
      ... first loop ...
      if pathExists {
          logger.LogMethodNotAllowed(ctx, allowedMethods)
          logger.SendDetailedError(ctx, http.StatusMethodNotAllowed,
              "M\'ethode HTTP non autoris\'ee pour cette route",
              map[string]interface{}{
                  "allowed_methods": allowedMethods,
                  "suggestion":      "Essayez avec: " + allowedMethods[0] })
          return
      }
      logger.LogRouteNotFound(ctx)
      ... second loop ...
      suggestions := utils.SuggestSimilarRoutes(req.URL.Path, availableRoutes)
      logger.SendDetailedError(ctx, http.StatusNotFound, "Route non trouv\'ee",
          map[string]interface{}{
              "suggestions": suggestions, "available_routes": availableRoutes,
              "tip": "V\'erifiez l'URL et la m\'ethode HTTP" })
  }
  \<close>
\<close>

definition lookup_handler :: "'h route_map \<Rightarrow> string \<Rightarrow> string \<Rightarrow> 'h option" where
  "lookup_handler rts method path =
     (case map_of rts method of
        None \<Rightarrow> None
      | Some methodRoutes \<Rightarrow> map_of methodRoutes path)"

definition router_ServeHTTP :: "GofsenLogger \<Rightarrow> env \<Rightarrow> router_Router \<Rightarrow> http_ResponseWriter \<Rightarrow> http_Request \<Rightarrow> types_Context outcome" where
  "router_ServeHTTP gl e r w req =
     (let ctx = \<lparr>ctx_Request = req, Writer = w, ctx_Params = Map.empty\<rparr> in
      case lookup_handler (router_routes r) (http_Request.Method req) (URL_Path req) of
        Some handler \<Rightarrow> wrap (router_middlewares r) handler ctx
      | None \<Rightarrow>
          (case allowed_loop (router_routes r) (URL_Path req) (False, []) of
             (pathExists, allowedMethods) \<Rightarrow>
               if pathExists then
                 (case allowedMethods of
                    [] \<Rightarrow> Panicked ''runtime error: index out of range'' ctx
                  | first # _ \<Rightarrow>
                      Returned (SendDetailedError gl e ctx 405 msg_405
                        (Some (JObject
                           [(''allowed_methods'', JArray (map JString allowedMethods)),
                            (''suggestion'', JString (''Essayez avec: '' @ first))]))))
               else
                 (let availableRoutes = available_loop (router_routes r) [];
                      suggestions = SuggestSimilarRoutes (URL_Path req) availableRoutes
                  in Returned (SendDetailedError gl e ctx 404 msg_404
                       (Some (JObject
                          [(''suggestions'', JArray (map JString suggestions)),
                           (''available_routes'', JArray (map JString availableRoutes)),
                           (''tip'', JString tip_404)]))))))"

section \<open>Observations and example applications\<close>

text \<open>The context an outcome leaves behind, whether the call returned or panicked.\<close>

fun outcome_context :: "'c outcome \<Rightarrow> 'c" where
  "outcome_context (Returned c) = c"
| "outcome_context (Panicked v c) = c"

text \<open>
  A route matches a path when its pattern accepts the path or, for a route without
  pattern, when its template equals the path; \<open>route_params\<close> are the parameters that
  \<open>findRoute\<close> binds for a matching route.
\<close>

definition route_matches :: "'h Route \<Rightarrow> string \<Rightarrow> bool" where
  "route_matches d path =
     (case Pattern d of
        Some pattern \<Rightarrow> FindStringSubmatch pattern path \<noteq> None
      | None \<Rightarrow> Path d = path)"

definition route_params :: "'h Route \<Rightarrow> string \<Rightarrow> (string \<rightharpoonup> string)" where
  "route_params d path =
     (case Pattern d of
        None \<Rightarrow> Map.empty
      | Some pattern \<Rightarrow>
          (case FindStringSubmatch pattern path of
             None \<Rightarrow> Map.empty
           | Some matches \<Rightarrow> bind_params 0 (Route.Params d) matches Map.empty))"

text \<open>Requests, handlers and middleware of the kind the repository's tests use.\<close>

definition request :: "string \<Rightarrow> string \<Rightarrow> http_Request" where
  "request method path =
     \<lparr>http_Request.Method = method, URL_Path = path, URL_RawQuery = [], Header = Map.empty\<rparr>"

definition Param :: "Context \<Rightarrow> string \<Rightarrow> string" where
  "Param c key = (case Context.Params c key of None \<Rightarrow> [] | Some v \<Rightarrow> v)"

definition show_user :: HandlerFunc where
  "show_user next c = Returned (JSON c (JObject [(''id'', JString (Param c ''id''))]))"

definition reply :: "string \<Rightarrow> HandlerFunc" where
  "reply v next c = Returned (JSON c (JObject [(''message'', JString v)]))"

definition panicking :: "string \<Rightarrow> HandlerFunc" where
  "panicking v next c = Panicked v c"

definition tracer :: "string \<Rightarrow> MiddlewareFunc" where
  "tracer name next c = next (c\<lparr>ResponseWriter := Encode (ResponseWriter c) (JString name)\<rparr>)"

definition users_route :: "'h \<Rightarrow> 'h Route" where
  "users_route h =
     \<lparr>Method = ''GET'', Path = ''/users/:id'', Handler = h,
      Pattern = Some (map Lit ''/users/'' @ [Seg]), Params = [''id'']\<rparr>"

definition static_route :: "string \<Rightarrow> 'h \<Rightarrow> 'h Route" where
  "static_route path h =
     \<lparr>Method = ''GET'', Path = path, Handler = h, Pattern = None, Params = []\<rparr>"

definition users_app :: "HandlerFunc \<Rightarrow> Router" where
  "users_app h = New\<lparr>routes := [users_route h]\<rparr>"

definition shadow_app :: Router where
  "shadow_app = New\<lparr>routes := [users_route show_user, static_route ''/users/new'' (reply ''new'')]\<rparr>"

definition static_first_app :: Router where
  "static_first_app =
     New\<lparr>routes := [static_route ''/health'' (reply ''ok''),
                     static_route ''/users/new'' (reply ''new''),
                     users_route show_user]\<rparr>"

definition dup_app :: Router where
  "dup_app = New\<lparr>routes := [static_route ''/x'' (reply ''first''),
                              static_route ''/x'' (reply ''second'')]\<rparr>"

text \<open>
  A handler that writes its name and returns, for observing which step of a chain ran,
  and the application of the group example: two global middleware, a group \<open>/api\<close> with
  one middleware of its own, and a route registered through the group.
\<close>

definition mark :: "string \<Rightarrow> HandlerFunc" where
  "mark name next c = Returned (c\<lparr>ResponseWriter := Encode (ResponseWriter c) (JString name)\<rparr>)"

definition api_group :: RouteGroup where
  "api_group = \<lparr>prefix = ''/api'', group_middlewares = []\<rparr>"

definition group_app0 :: Router where
  "group_app0 =
     \<lparr>routes = [], middlewares = [tracer ''A'', tracer ''B''], groups = [''/api'' \<mapsto> api_group]\<rparr>"

definition group_app :: Router where
  "group_app = group_app0\<lparr>routes := [static_route ''/api/x'' (mark ''handler'')]\<rparr>"

text \<open>The same kind of fixtures for the application's router.\<close>

definition types_reply :: "string \<Rightarrow> types_HandlerFunc" where
  "types_reply v ctx = Returned (types_JSON ctx 200 (JObject [(''message'', JString v)]))"

definition types_mark :: "string \<Rightarrow> types_HandlerFunc" where
  "types_mark name ctx = Returned (ctx\<lparr>Writer := Encode (Writer ctx) (JString name)\<rparr>)"

definition types_tracer :: "string \<Rightarrow> types_Middleware" where
  "types_tracer name next ctx = next (ctx\<lparr>Writer := Encode (Writer ctx) (JString name)\<rparr>)"

definition types_panicking :: "string \<Rightarrow> types_HandlerFunc" where
  "types_panicking v ctx = Panicked v ctx"

definition router_empty :: router_Router where
  "router_empty = \<lparr>router_routes = [], router_middlewares = []\<rparr>"

definition health_router :: router_Router where
  "health_router = router_Handle router_empty ''GET'' ''/health'' (types_reply ''ok'')"

definition debugLogger :: GofsenLogger where
  "debugLogger = \<lparr>Level = LogDebug, EnableDetailedErrors = True\<rparr>"

text \<open>
  One reading of the environment: a clock value, a stack text and the entries of
  \<open>http.StatusText\<close> for the codes that the routers send.
\<close>

definition example_StatusText :: "nat \<Rightarrow> string" where
  "example_StatusText code =
     (if code = 400 then ''Bad Request''
      else if code = 401 then ''Unauthorized''
      else if code = 404 then ''Not Found''
      else if code = 405 then ''Method Not Allowed''
      else if code = 500 then ''Internal Server Error''
      else [])"

definition example_env :: env where
  "example_env =
     \<lparr>now = ''2025-01-02T03:04:05Z'', stack = ''goroutine 1 [running]:'',
      StatusText = example_StatusText\<rparr>"

text \<open>The keys that the specification requires of every failure response.\<close>

definition required_keys :: "string set" where
  "required_keys = {''error'', ''message'', ''path'', ''method'', ''timestamp'', ''code''}"

text \<open>
  The methods under which a path has a route, in the order in which the table is visited.
\<close>

definition methods_with_path :: "'h route_map \<Rightarrow> string \<Rightarrow> string list" where
  "methods_with_path rts path = map fst (filter (\<lambda>(method, paths). map_of paths path \<noteq> None) rts)"

definition detailed :: "GofsenLogger \<Rightarrow> bool" where
  "detailed gl \<longleftrightarrow> EnableDetailedErrors gl \<and> Level gl \<le> LogDebug"

text \<open>
  The body that \<open>SendDetailedError\<close> encodes for a request: the plain error response, or
  the detailed one when the logger is in detailed mode.
\<close>

definition error_payload :: "GofsenLogger \<Rightarrow> env \<Rightarrow> http_Request \<Rightarrow> nat \<Rightarrow> string \<Rightarrow> json option \<Rightarrow> json" where
  "error_payload gl e req code message details =
     (let base = [(''error'', JString (StatusText e code))]
                 @ (if message = [] then [] else [(''message'', JString message)])
                 @ [(''path'', JString (URL_Path req)),
                    (''method'', JString (http_Request.Method req)),
                    (''timestamp'', JString (now e)),
                    (''code'', JInt (int code))]
      in if detailed gl then
           JObject (base
             @ (case details of None \<Rightarrow> [] | Some v \<Rightarrow> [(''details'', v)])
             @ [(''headers'', JObject
                  [(''User-Agent'', JString (Header_Get req ''User-Agent'')),
                   (''Content-Type'', JString (Header_Get req ''Content-Type'')),
                   (''Authorization'', JString (maskAuthHeader (Header_Get req ''Authorization''))),
                   (''Origin'', JString (Header_Get req ''Origin''))])])
         else JObject base)"

text \<open>
  The application's router as \<open>main\<close> configures it (\<open>RecoveryMiddleware\<close> first, then
  \<open>LoggerMiddleware\<close>) with the route \<open>/test/recovery\<close> of the test routes, whose handler
  panics; contexts and configurations for the examples of the middleware.
\<close>

definition recovery_router :: "GofsenLogger \<Rightarrow> router_Router" where
  "recovery_router gl =
     router_Handle
       (router_Use (router_Use router_empty [RecoveryMiddleware gl example_env]) [LoggerMiddleware])
       ''GET'' ''/test/recovery'' (types_panicking ''boom'')"

definition write_then_panic :: types_HandlerFunc where
  "write_then_panic ctx =
     Panicked ''boom'' (types_JSON ctx 200 (JObject [(''message'', JString ''partial'')]))"

definition no_auth_context :: types_Context where
  "no_auth_context =
     \<lparr>ctx_Request = request ''GET'' ''/api/me'', Writer = new_writer, ctx_Params = Map.empty\<rparr>"

definition panic_context :: Context where
  "panic_context =
     \<lparr>Request = request ''GET'' ''/panic'', ResponseWriter = new_writer, Params = Map.empty,
      Query = Map.empty, middlewareIndex = 0\<rparr>"

definition panic_app :: "string \<Rightarrow> Router" where
  "panic_app clock =
     New\<lparr>routes := [static_route ''/panic'' (panicking ''boom'')], middlewares := [Recovery clock]\<rparr>"

definition origin_context :: "string \<Rightarrow> Context" where
  "origin_context origin =
     \<lparr>Request = \<lparr>http_Request.Method = ''GET'', URL_Path = ''/test'', URL_RawQuery = [],
                  Header = [''Origin'' \<mapsto> origin]\<rparr>,
      ResponseWriter = new_writer, Params = Map.empty, Query = Map.empty, middlewareIndex = 0\<rparr>"

definition only_a_com :: CORSConfig where
  "only_a_com = \<lparr>AllowOrigins = [''https://a.com''], AllowMethods = [''GET'', ''POST''],
                 AllowHeaders = [''Content-Type'']\<rparr>"

definition no_origin_context :: Context where
  "no_origin_context =
     \<lparr>Request = request ''GET'' ''/test'', ResponseWriter = new_writer, Params = Map.empty,
      Query = Map.empty, middlewareIndex = 0\<rparr>"

definition wildcard :: CORSConfig where
  "wildcard = \<lparr>AllowOrigins = [''*''], AllowMethods = [''GET'', ''POST''],
               AllowHeaders = [''Content-Type'']\<rparr>"

text \<open>
  Templates of the usual shape, for stating what compilation and matching do in general:
  a list of segments, each written after a \<open>/\<close>, a segment being literal text or a
  parameter \<open>:name\<close>. A template is well formed, and inside the fragment of the model,
  when its literal text has no \<open>/\<close>, no \<open>:\<close> and no byte with a meaning in a regular
  expression, and its parameter names are non-empty and have no \<open>/\<close>.
  \<open>template_of\<close> is the template as registered, \<open>regex_source\<close> the expression that
  \<open>convertPathToRegex\<close> builds from it, \<open>pattern_of\<close> its compiled form and
  \<open>params_of\<close> the names in template order.
\<close>

datatype segment = Literal string | Parameter string

fun template_of :: "segment list \<Rightarrow> string" where
  "template_of [] = []"
| "template_of (Literal l # rest) = CHR ''/'' # l @ template_of rest"
| "template_of (Parameter n # rest) = CHR ''/'' # CHR '':'' # n @ template_of rest"

fun pattern_of :: "segment list \<Rightarrow> Regexp" where
  "pattern_of [] = []"
| "pattern_of (Literal l # rest) = Lit CHR ''/'' # map Lit l @ pattern_of rest"
| "pattern_of (Parameter n # rest) = Lit CHR ''/'' # Seg # pattern_of rest"

fun params_of :: "segment list \<Rightarrow> string list" where
  "params_of [] = []"
| "params_of (Literal l # rest) = params_of rest"
| "params_of (Parameter n # rest) = n # params_of rest"

fun well_formed :: "segment list \<Rightarrow> bool" where
  "well_formed [] \<longleftrightarrow> True"
| "well_formed (Literal l # rest) \<longleftrightarrow>
     list_all (\<lambda>c. \<not> regexp_meta c \<and> c \<noteq> CHR ''/'' \<and> c \<noteq> CHR '':'') l \<and> well_formed rest"
| "well_formed (Parameter n # rest) \<longleftrightarrow> n \<noteq> [] \<and> CHR ''/'' \<notin> set n \<and> well_formed rest"

fun regex_source :: "segment list \<Rightarrow> string" where
  "regex_source [] = []"
| "regex_source (Literal l # rest) = CHR ''/'' # l @ regex_source rest"
| "regex_source (Parameter n # rest) = CHR ''/'' # seg_source @ regex_source rest"

text \<open>
  What matching a path against a template means in the words of the specification: the
  whole path is cut at every \<open>/\<close>, it must have exactly one piece per segment, a literal
  segment must equal its piece, a parameter takes its piece, which must be non-empty, and
  the pieces taken by the parameters are returned in order. \<open>join_segments\<close>, \<open>fits\<close>
  and \<open>captures\<close> say the same for a path given by its pieces.
\<close>

fun match_segments :: "segment list \<Rightarrow> string \<Rightarrow> string list option" where
  "match_segments [] path = (if path = [] then Some [] else None)"
| "match_segments (s # rest) [] = None"
| "match_segments (s # rest) (c # cs) =
     (if c \<noteq> CHR ''/'' then None
      else
        (case s of
           Literal l \<Rightarrow>
             if takeWhile (\<lambda>x. x \<noteq> CHR ''/'') cs = l
             then match_segments rest (dropWhile (\<lambda>x. x \<noteq> CHR ''/'') cs) else None
         | Parameter n \<Rightarrow>
             if takeWhile (\<lambda>x. x \<noteq> CHR ''/'') cs = [] then None
             else map_option ((#) (takeWhile (\<lambda>x. x \<noteq> CHR ''/'') cs))
                    (match_segments rest (dropWhile (\<lambda>x. x \<noteq> CHR ''/'') cs))))"

definition dynamic_route :: "string \<Rightarrow> segment list \<Rightarrow> 'h \<Rightarrow> 'h Route" where
  "dynamic_route method segs h =
     \<lparr>Method = method, Path = template_of segs, Handler = h,
      Pattern = Some (pattern_of segs), Params = params_of segs\<rparr>"

definition posts_template :: "segment list" where
  "posts_template = [Literal ''users'', Parameter ''id'', Literal ''posts'', Parameter ''postId'']"

definition join_segments :: "string list \<Rightarrow> string" where
  "join_segments vals = concat (map ((#) CHR ''/'') vals)"

fun fits :: "segment \<Rightarrow> string \<Rightarrow> bool" where
  "fits (Literal l) v \<longleftrightarrow> v = l"
| "fits (Parameter n) v \<longleftrightarrow> v \<noteq> []"

fun captures :: "segment list \<Rightarrow> string list \<Rightarrow> string list" where
  "captures (Parameter n # rest) (v # vs) = v # captures rest vs"
| "captures (Literal l # rest) (v # vs) = captures rest vs"
| "captures _ _ = []"

section \<open>Resolution in package gofsen\<close>

lemma convert_static:
  "CHR '':'' \<notin> set path \<Longrightarrow> convertPathToRegex path = Inr (None, [])"
  by (simp add: convertPathToRegex_def)

lemma convert_users:
  "convertPathToRegex ''/users/:id'' = Inr (Some (map Lit ''/users/'' @ [Seg]), [''id''])"
  by (simp add: convertPathToRegex_def regexp_Compile_def tokenize.simps seg_source_def
      regexp_meta_def)

lemma GET_users: "GET r ''/users/:id'' h = Inr (r\<lparr>routes := routes r @ [users_route h]\<rparr>)"
  by (simp add: GET_def addRoute_def convert_users users_route_def)

lemma GET_static:
  "CHR '':'' \<notin> set path \<Longrightarrow>
   GET r path h = Inr (r\<lparr>routes := routes r @ [static_route path h]\<rparr>)"
  by (simp add: GET_def addRoute_def convert_static static_route_def)

lemma match_seg_end:
  "match_seg [] acc s = (if CHR ''/'' \<in> set s \<or> acc @ s = [] then None else Some [acc @ s])"
  by (induction s arbitrary: acc) auto

lemma match_lits:
  "match_toks (map Lit lits @ ts) s =
     (if take (length lits) s = lits then match_toks ts (drop (length lits) s) else None)"
proof (induction lits arbitrary: s)
  case Nil
  show ?case by simp
next
  case (Cons c lits)
  show ?case by (cases s) (auto simp: Cons.IH)
qed

lemma users_match:
  "FindStringSubmatch (map Lit ''/users/'' @ [Seg]) path =
     (if take 7 path = ''/users/'' \<and> drop 7 path \<noteq> [] \<and> CHR ''/'' \<notin> set (drop 7 path)
      then Some [path, drop 7 path] else None)"
proof -
  have len: "length ''/users/'' = 7" by simp
  have step: "match_toks (map Lit ''/users/'' @ [Seg]) path =
      (if take 7 path = ''/users/'' then match_toks [Seg] (drop 7 path) else None)"
    using match_lits [of "''/users/''" "[Seg]" path] unfolding len .
  show ?thesis
    unfolding FindStringSubmatch_def step by (simp add: match_seg_end)
qed

lemma find_users_route:
  "findRoute_loop (users_route h # rest) ''GET'' path =
     (if take 7 path = ''/users/'' \<and> drop 7 path \<noteq> [] \<and> CHR ''/'' \<notin> set (drop 7 path)
      then Some (users_route h, [''id'' \<mapsto> drop 7 path])
      else findRoute_loop rest ''GET'' path)"
  by (simp add: findRoute_loop.simps(2) users_route_def users_match del: map_append list.map)

lemma find_static_route:
  "findRoute_loop (static_route p h # rest) ''GET'' path =
     (if p = path then Some (static_route p h, Map.empty) else findRoute_loop rest ''GET'' path)"
  by (simp add: findRoute_loop.simps(2) static_route_def)

lemma findRoute_loop_step:
  "findRoute_loop (d # rest) method path =
     (if Route.Method d = method \<and> route_matches d path then Some (d, route_params d path)
      else findRoute_loop rest method path)"
  by (auto simp: findRoute_loop.simps(2) route_matches_def route_params_def split: option.splits)

declare findRoute_loop.simps(2) [simp del]

lemma findRoute_loop_append:
  "findRoute_loop (xs @ ys) method path =
     (case findRoute_loop xs method path of
        Some hit \<Rightarrow> Some hit
      | None \<Rightarrow> findRoute_loop ys method path)"
  by (induction xs) (simp_all only: findRoute_loop_step append.simps findRoute_loop.simps
      option.case if_distrib [of "case_option _ _"] if_cancel split: if_splits)

lemma findRoute_loop_none:
  "(\<forall>d\<in>set xs. Route.Method d = method \<longrightarrow> \<not> route_matches d path) \<Longrightarrow>
   findRoute_loop xs method path = None"
  by (induction xs) (simp_all add: findRoute_loop_step)

text \<open>Compilation and matching of every well-formed template.\<close>

lemma template_head: "template_of segs = [] \<or> (\<exists>t. template_of segs = CHR ''/'' # t)"
  by (cases segs rule: template_of.cases) auto

lemma pattern_head: "pattern_of segs = [] \<or> (\<exists>ts. pattern_of segs = Lit CHR ''/'' # ts)"
  by (cases segs rule: pattern_of.cases) auto

lemma takeWhile_template [simp]: "takeWhile (\<lambda>x. x \<noteq> CHR ''/'') (template_of segs) = []"
  using template_head [of segs] by auto

lemma dropWhile_template [simp]:
  "dropWhile (\<lambda>x. x \<noteq> CHR ''/'') (template_of segs) = template_of segs"
  using template_head [of segs] by auto

lemma FindAllParams_skip:
  "CHR '':'' \<notin> set l \<Longrightarrow> FindAllParams (l @ s) = FindAllParams s"
  by (induction l) auto

lemma FindAllParams_template:
  "well_formed segs \<Longrightarrow>
   FindAllParams (template_of segs) = map (\<lambda>n. (CHR '':'' # n, n)) (params_of segs)"
proof (induction segs rule: template_of.induct)
  case 1
  show ?case by simp
next
  case (2 l rest)
  then have "CHR '':'' \<notin> set l"
    by (auto simp: list_all_iff)
  with 2 show ?case
    by (simp add: FindAllParams_skip)
next
  case (3 n rest)
  then have n: "n \<noteq> []" "\<And>x. x \<in> set n \<Longrightarrow> x \<noteq> CHR ''/''"
    by auto
  have tw: "takeWhile (\<lambda>x. x \<noteq> CHR ''/'') (n @ template_of rest) = n"
    using n(2) by (simp add: takeWhile_append2)
  have dw: "dropWhile (\<lambda>x. x \<noteq> CHR ''/'') (n @ template_of rest) = template_of rest"
    using n(2) by (simp add: dropWhile_append2)
  from 3 n(1) show ?case
    by (simp add: tw dw)
qed

lemma Replace_first_at:
  "c \<notin> set p \<Longrightarrow> Replace_first (p @ (c # n) @ r) (c # n) new = p @ new @ r"
proof (induction p)
  case Nil
  show ?case by simp
next
  case (Cons x p)
  then show ?case by auto
qed

lemma convert_loop_template:
  "well_formed segs \<Longrightarrow> CHR '':'' \<notin> set done \<Longrightarrow>
   convert_loop (map (\<lambda>n. (CHR '':'' # n, n)) (params_of segs)) ps (done @ template_of segs)
     = (ps @ params_of segs, done @ regex_source segs)"
proof (induction segs arbitrary: "done" ps rule: template_of.induct)
  case 1
  show ?case by simp
next
  case (2 l rest)
  then have "CHR '':'' \<notin> set (done @ CHR ''/'' # l)"
    by (auto simp: list_all_iff)
  from 2(1) [OF _ this, of ps] 2(2) show ?case by simp
next
  case (3 n rest)
  have nc: "CHR '':'' \<notin> set (done @ [CHR ''/''])"
    using 3(3) by simp
  have rep: "Replace_first (done @ CHR ''/'' # CHR '':'' # n @ template_of rest) (CHR '':'' # n) seg_source
      = (done @ [CHR ''/'']) @ seg_source @ template_of rest"
    using Replace_first_at [OF nc, of n "template_of rest" seg_source] by simp
  have nc': "CHR '':'' \<notin> set (done @ CHR ''/'' # seg_source)"
    using 3(3) by (simp add: seg_source_def)
  from 3(1) [OF _ nc', of "ps @ [n]"] 3(2) show ?case
    by (simp add: rep)
qed

lemma tokenize_literal:
  "\<not> regexp_meta c \<Longrightarrow> tokenize (c # s) = map_option ((#) (Lit c)) (tokenize s)"
proof -
  assume nm: "\<not> regexp_meta c"
  then have "c \<noteq> CHR ''(''"
    by (auto simp: regexp_meta_def)
  then have "take 7 (c # s) \<noteq> seg_source"
    by (auto simp: seg_source_def)
  with nm show ?thesis
    by (subst tokenize.simps) simp
qed

lemma tokenize_literals:
  "list_all (\<lambda>c. \<not> regexp_meta c) l \<Longrightarrow>
   tokenize (l @ s) = map_option ((@) (map Lit l)) (tokenize s)"
proof (induction l)
  case Nil
  show ?case by (simp add: option.map_ident)
next
  case (Cons c l)
  then show ?case
    by (simp add: tokenize_literal option.map_comp comp_def)
qed

lemma tokenize_group: "tokenize (seg_source @ s) = map_option ((#) Seg) (tokenize s)"
  by (subst tokenize.simps) (simp add: seg_source_def)

lemma slash_plain: "\<not> regexp_meta CHR ''/''"
  by (simp add: regexp_meta_def)

lemma tokenize_source:
  "well_formed segs \<Longrightarrow> tokenize (regex_source segs) = Some (pattern_of segs)"
proof (induction segs rule: template_of.induct)
  case 1
  show ?case by (subst tokenize.simps) simp
next
  case (2 l rest)
  then have "list_all (\<lambda>c. \<not> regexp_meta c) l"
    by (auto simp: list_all_iff)
  with 2 show ?case
    by (simp add: tokenize_literal [OF slash_plain] tokenize_literals)
next
  case (3 n rest)
  then show ?case
    by (simp add: tokenize_literal [OF slash_plain] tokenize_group)
qed

lemma Compile_source:
  "well_formed segs \<Longrightarrow>
   regexp_Compile (''^'' @ regex_source segs @ ''$'') = Some (pattern_of segs)"
  by (simp add: regexp_Compile_def tokenize_source)

lemma template_has_colon:
  "params_of segs \<noteq> [] \<Longrightarrow> CHR '':'' \<in> set (template_of segs)"
  by (induction segs rule: template_of.induct) auto

lemma convert_template:
  assumes "well_formed segs" and "params_of segs \<noteq> []"
  shows "convertPathToRegex (template_of segs) = Inr (Some (pattern_of segs), params_of segs)"
proof -
  have "convert_loop (FindAllParams (template_of segs)) [] (template_of segs)
      = (params_of segs, regex_source segs)"
    using convert_loop_template [OF assms(1), of "[]" "[]"]
    by (simp add: FindAllParams_template [OF assms(1)])
  then show ?thesis
    using template_has_colon [OF assms(2)] Compile_source [OF assms(1)]
    by (simp add: convertPathToRegex_def)
qed

lemma match_seg_segment:
  assumes "ts = [] \<or> (\<exists>ts'. ts = Lit CHR ''/'' # ts')"
  shows "match_seg ts acc s =
     (if acc @ takeWhile (\<lambda>x. x \<noteq> CHR ''/'') s = [] then None
      else map_option ((#) (acc @ takeWhile (\<lambda>x. x \<noteq> CHR ''/'') s))
             (match_toks ts (dropWhile (\<lambda>x. x \<noteq> CHR ''/'') s)))"
proof (induction s arbitrary: acc)
  case Nil
  show ?case by simp
next
  case (Cons x xs)
  show ?case
  proof (cases "x = CHR ''/''")
    case True
    then show ?thesis by simp
  next
    case False
    have stop: "match_toks ts (x # xs) = None"
      using assms False by auto
    show ?thesis
      using False by (simp add: Cons.IH stop split: option.splits)
  qed
qed

lemma match_toks_mismatch:
  assumes "ts = [] \<or> (\<exists>ts'. ts = Lit CHR ''/'' # ts')" and "x \<noteq> CHR ''/''"
  shows "match_toks ts (x # xs) = None"
  using assms by auto

lemma takeWhile_prefix_eq:
  "takeWhile P cs = l \<Longrightarrow> take (length l) cs = l"
  by (metis takeWhile_eq_take)

lemma match_pattern:
  "well_formed segs \<Longrightarrow> match_toks (pattern_of segs) path = match_segments segs path"
proof (induction segs arbitrary: path rule: template_of.induct)
  case 1
  show ?case by simp
next
  case (2 l rest)
  have wl: "\<And>x. x \<in> set l \<Longrightarrow> x \<noteq> CHR ''/''" and wr: "well_formed rest"
    using 2(2) by (auto simp: list_all_iff)
  note IH = 2(1) [OF wr]
  show ?case
  proof (cases path)
    case Nil
    then show ?thesis by simp
  next
    case (Cons c cs)
    show ?thesis
    proof (cases "c = CHR ''/''")
      case False
      with Cons show ?thesis by simp
    next
      case True
      have lhs: "match_toks (pattern_of (Literal l # rest)) path =
          (if take (length l) cs = l then match_toks (pattern_of rest) (drop (length l) cs) else None)"
        using Cons True by (simp add: match_lits)
      have rhs: "match_segments (Literal l # rest) path =
          (if takeWhile (\<lambda>x. x \<noteq> CHR ''/'') cs = l
           then match_segments rest (dropWhile (\<lambda>x. x \<noteq> CHR ''/'') cs) else None)"
        using Cons True by simp
      show ?thesis
      proof (cases "take (length l) cs = l")
        case False
        then have "takeWhile (\<lambda>x. x \<noteq> CHR ''/'') cs \<noteq> l"
          using takeWhile_prefix_eq by blast
        with False lhs rhs show ?thesis by simp
      next
        case t: True
        define d where "d = drop (length l) cs"
        have cs: "cs = l @ d"
          using t unfolding d_def by (metis append_take_drop_id)
        have tw: "takeWhile (\<lambda>x. x \<noteq> CHR ''/'') cs = l @ takeWhile (\<lambda>x. x \<noteq> CHR ''/'') d"
          unfolding cs using wl by (simp add: takeWhile_append2)
        have dw: "dropWhile (\<lambda>x. x \<noteq> CHR ''/'') cs = dropWhile (\<lambda>x. x \<noteq> CHR ''/'') d"
          unfolding cs using wl by (simp add: dropWhile_append2)
        show ?thesis
        proof (cases "d = [] \<or> hd d = CHR ''/''")
          case True
          then have "takeWhile (\<lambda>x. x \<noteq> CHR ''/'') d = []" "dropWhile (\<lambda>x. x \<noteq> CHR ''/'') d = d"
            by (cases d; auto)+
          then show ?thesis
            using lhs rhs t tw dw IH [of d] by (simp add: d_def)
        next
          case False
          then obtain x d' where d: "d = x # d'" "x \<noteq> CHR ''/''"
            by (cases d) auto
          then have "takeWhile (\<lambda>x. x \<noteq> CHR ''/'') cs \<noteq> l"
            using tw by simp
          moreover have "match_toks (pattern_of rest) d = None"
            unfolding d(1) using match_toks_mismatch [OF pattern_head d(2)] .
          ultimately show ?thesis
            using lhs rhs t by (simp add: d_def)
        qed
      qed
    qed
  qed
next
  case (3 n rest)
  then have wr: "well_formed rest" by simp
  note IH = 3(1) [OF wr]
  show ?case
  proof (cases path)
    case Nil
    then show ?thesis by simp
  next
    case (Cons c cs)
    then show ?thesis
      by (simp add: match_seg_segment [OF pattern_head] IH)
  qed
qed

lemma match_segments_length:
  "match_segments segs path = Some caps \<Longrightarrow> length caps = length (params_of segs)"
proof (induction segs path arbitrary: caps rule: match_segments.induct)
  case (1 path)
  then show ?case by (simp split: if_splits)
next
  case (2 s rest)
  then show ?case by simp
next
  case (3 s rest c cs)
  then show ?case
    by (cases s) (auto split: if_splits)
qed

lemma bind_params_positional:
  "bind_params i names matches m = m ++ map_of (rev (zip names (drop (Suc i) matches)))"
proof (induction names arbitrary: i m)
  case Nil
  show ?case by simp
next
  case (Cons p ps)
  show ?case
  proof (cases "Suc i < length matches")
    case True
    then have d: "drop (Suc i) matches = matches ! Suc i # drop (Suc (Suc i)) matches"
      by (simp add: Cons_nth_drop_Suc)
    have "bind_params i (p # ps) matches m
        = bind_params (Suc i) ps matches (m(p \<mapsto> matches ! Suc i))"
      using True by simp
    also have "\<dots> = m(p \<mapsto> matches ! Suc i) ++ map_of (rev (zip ps (drop (Suc (Suc i)) matches)))"
      by (rule Cons.IH)
    also have "\<dots> = (m ++ [p \<mapsto> matches ! Suc i]) ++ map_of (rev (zip ps (drop (Suc (Suc i)) matches)))"
      by simp
    also have "\<dots> = m ++ map_of (rev (zip (p # ps) (drop (Suc i) matches)))"
      unfolding d by (simp only: zip_Cons_Cons rev.simps map_of_append map_add_assoc map_of.simps fst_conv snd_conv)
    finally show ?thesis .
  next
    case False
    then have "drop (Suc i) matches = []" "drop (Suc (Suc i)) matches = []"
      by simp_all
    then show ?thesis
      using False Cons.IH [of "Suc i" m] by simp
  qed
qed

lemma find_dynamic_route:
  assumes "well_formed segs"
  shows "findRoute (New\<lparr>routes := [dynamic_route method segs h]\<rparr>) method path =
     (case match_segments segs path of
        None \<Rightarrow> None
      | Some caps \<Rightarrow> Some (dynamic_route method segs h, map_of (rev (zip (params_of segs) caps))))"
  by (simp add: findRoute_def New_def dynamic_route_def findRoute_loop.simps(2) FindStringSubmatch_def
      match_pattern [OF assms] bind_params_positional split: option.splits)

lemma join_head: "join_segments vals = [] \<or> (\<exists>t. join_segments vals = CHR ''/'' # t)"
  by (cases vals) (auto simp: join_segments_def)

lemma match_segments_join:
  "list_all (\<lambda>v. CHR ''/'' \<notin> set v) vals \<Longrightarrow>
   match_segments segs (join_segments vals) =
     (if list_all2 fits segs vals then Some (captures segs vals) else None)"
proof (induction segs arbitrary: vals)
  case Nil
  show ?case by (cases vals) (auto simp: join_segments_def)
next
  case (Cons s rest)
  show ?case
  proof (cases vals)
    case Nil
    then show ?thesis by (simp add: join_segments_def)
  next
    case (Cons v vs)
    have v: "\<And>x. x \<in> set v \<Longrightarrow> x \<noteq> CHR ''/''" and vs: "list_all (\<lambda>v. CHR ''/'' \<notin> set v) vs"
      using Cons.prems Cons by auto
    have j: "join_segments vals = CHR ''/'' # v @ join_segments vs"
      using Cons by (simp add: join_segments_def)
    have tw0: "takeWhile (\<lambda>x. x \<noteq> CHR ''/'') (join_segments vs) = []"
      and dw0: "dropWhile (\<lambda>x. x \<noteq> CHR ''/'') (join_segments vs) = join_segments vs"
      using join_head [of vs] by auto
    have tw: "takeWhile (\<lambda>x. x \<noteq> CHR ''/'') (v @ join_segments vs) = v"
      using v by (simp add: takeWhile_append2 tw0)
    have dw: "dropWhile (\<lambda>x. x \<noteq> CHR ''/'') (v @ join_segments vs) = join_segments vs"
      using v by (simp add: dropWhile_append2 dw0)
    show ?thesis
      unfolding j using Cons.IH [OF vs] Cons
      by (cases s) (auto simp: tw dw)
  qed
qed

section \<open>Properties of the route suggestions\<close>

lemma take1_eq_iff:
  "a \<noteq> [] \<Longrightarrow> b \<noteq> [] \<Longrightarrow> take 1 a = take 1 b \<longleftrightarrow> shares_first_char a b"
  by (cases a; cases b) auto

lemma shares_first_char_nonempty:
  "shares_first_char a b \<Longrightarrow> a \<noteq> [] \<and> b \<noteq> []"
  by (cases a; cases b) auto

lemma last_three_rev:
  "3 < length a \<Longrightarrow> drop (length a - 3) a = rev (take 3 (rev a))"
  by (simp add: take_rev)

lemma drop3_eq_iff:
  assumes "3 < length a" "3 < length b"
  shows "drop (length a - 3) a = drop (length b - 3) b \<longleftrightarrow> take 3 (rev a) = take 3 (rev b)"
proof -
  have "drop (length a - 3) a = drop (length b - 3) b
          \<longleftrightarrow> rev (take 3 (rev a)) = rev (take 3 (rev b))"
    using assms by (simp only: last_three_rev)
  then show ?thesis by simp
qed

lemma suggest_loop_filter:
  "suggest_loop req avail acc = acc @ filter (eligible req) avail"
proof (induction avail arbitrary: acc)
  case Nil
  show ?case by simp
next
  case (Cons route rest)
  have "(length route > 0 \<and> length req > 0 \<and>
          (take 1 route = take 1 req \<or>
            (length route > 3 \<and> length req > 3 \<and>
             drop (length route - 3) route = drop (length req - 3) req)))
        \<longleftrightarrow> eligible req route"
  proof (cases "route = [] \<or> req = []")
    case True
    then show ?thesis
      by (auto simp: eligible_def same_last_three_def dest: shares_first_char_nonempty)
  next
    case False
    then show ?thesis
      using take1_eq_iff [of route req] drop3_eq_iff [of route req]
      by (auto simp: eligible_def same_last_three_def)
  qed
  then show ?case
    using Cons.IH by auto
qed

text \<open>
  C8. The suggestion function returns the first three eligible entries of the known-paths
  list, in list order: at most three entries, each one a known path, and a known path is
  eligible exactly when it shares its first character with the requested path or both
  strings are longer than three characters and agree on their last three characters.
\<close>

theorem C8_suggestions_first_three_eligible:
  "SuggestSimilarRoutes requestedPath knownPaths
     = take 3 (filter (eligible requestedPath) knownPaths)
   \<and> length (SuggestSimilarRoutes requestedPath knownPaths) \<le> 3
   \<and> subseq (SuggestSimilarRoutes requestedPath knownPaths) knownPaths"
proof -
  have eq: "SuggestSimilarRoutes requestedPath knownPaths
              = take 3 (filter (eligible requestedPath) knownPaths)"
    by (simp add: SuggestSimilarRoutes_def suggest_loop_filter Let_def)
  have "subseq (take 3 (filter (eligible requestedPath) knownPaths))
          (filter (eligible requestedPath) knownPaths)"
    by (rule prefix_imp_subseq [OF take_is_prefix])
  then have "subseq (take 3 (filter (eligible requestedPath) knownPaths)) knownPaths"
    using subseq_filter_left subseq_order.trans by blast
  with eq show ?thesis by simp
qed

section \<open>Dispatch in package gofsen\<close>

lemma not_found_response:
  "findRoute r (http_Request.Method req) (URL_Path req) = None \<Longrightarrow>
   ServeHTTP r w req =
     Returned \<lparr>Request = req,
       ResponseWriter = \<lparr>header = (header w)(''Content-Type'' \<mapsto> ''application/json''),
                          codes = codes w @ [404],
                          written = written w @ [JObject [(''error'', JString ''Route not found'')]]\<rparr>,
       Params = Map.empty, Query = parseQuery (URL_RawQuery req), middlewareIndex = - 1\<rparr>"
  by (simp add: ServeHTTP_def JSON_def Status_def Encode_def WriteHeader_def Header_Set_def)

text \<open>
  C4. Matching of a dynamic route is anchored to the whole path and extracts one segment
  per parameter, by position. For every well-formed template with at least one parameter,
  registration stores the compiled pattern and the parameter names in template order, and
  resolution succeeds exactly for the paths that have one piece per segment, equal to the
  literal segments and non-empty at the parameters; the parameter map then binds the
  names, in order, to the pieces at their positions (a name that occurs twice keeps the
  later piece). In particular the template \<open>/users/:id\<close> resolves \<open>/users/42\<close> with
  \<open>params = {"id": "42"}\<close>, resolves a path exactly when it is \<open>/users/\<close> followed by
  one non-empty segment without \<open>/\<close>, and does not match \<open>/users\<close>, for which
  resolution finds no route and the router answers 404.
\<close>

theorem C4_dynamic_template_matching:
  "(well_formed segs \<and> params_of segs \<noteq> [] \<longrightarrow>
      addRoute r verb (template_of segs) g
        = Inr (r\<lparr>routes := routes r @ [dynamic_route verb segs g]\<rparr>)
      \<and> (\<forall>path. findRoute (New\<lparr>routes := [dynamic_route verb segs g]\<rparr>) verb path =
            (case match_segments segs path of
               None \<Rightarrow> None
             | Some caps \<Rightarrow>
                 Some (dynamic_route verb segs g, map_of (rev (zip (params_of segs) caps)))))
      \<and> (\<forall>path caps. match_segments segs path = Some caps \<longrightarrow>
            length caps = length (params_of segs)))
   \<and> (list_all (\<lambda>v. CHR ''/'' \<notin> set v) vals \<longrightarrow>
        match_segments segs (join_segments vals) =
          (if list_all2 fits segs vals then Some (captures segs vals) else None))
   \<and> GET New ''/users/:id'' h = Inr (users_app h)
   \<and> findRoute (users_app h) ''GET'' ''/users/42'' = Some (users_route h, [''id'' \<mapsto> ''42''])
   \<and> findRoute (users_app h) ''GET'' ''/users'' = None
   \<and> (\<forall>path. findRoute (users_app h) ''GET'' path =
         (if take 7 path = ''/users/'' \<and> drop 7 path \<noteq> [] \<and> CHR ''/'' \<notin> set (drop 7 path)
          then Some (users_route h, [''id'' \<mapsto> drop 7 path]) else None))
   \<and> ServeHTTP (users_app h) new_writer (request ''GET'' ''/users'') =
       Returned \<lparr>Request = request ''GET'' ''/users'',
         ResponseWriter = \<lparr>header = [''Content-Type'' \<mapsto> ''application/json''],
                            codes = [404],
                            written = [JObject [(''error'', JString ''Route not found'')]]\<rparr>,
         Params = Map.empty, Query = Map.empty, middlewareIndex = - 1\<rparr>"
proof -
  have general: "addRoute r verb (template_of segs) g
        = Inr (r\<lparr>routes := routes r @ [dynamic_route verb segs g]\<rparr>)
      \<and> (\<forall>path. findRoute (New\<lparr>routes := [dynamic_route verb segs g]\<rparr>) verb path =
            (case match_segments segs path of
               None \<Rightarrow> None
             | Some caps \<Rightarrow>
                 Some (dynamic_route verb segs g, map_of (rev (zip (params_of segs) caps)))))
      \<and> (\<forall>path caps. match_segments segs path = Some caps \<longrightarrow>
            length caps = length (params_of segs))"
    if wf: "well_formed segs" and ps: "params_of segs \<noteq> []"
  proof -
    have "addRoute r verb (template_of segs) g
        = Inr (r\<lparr>routes := routes r @ [dynamic_route verb segs g]\<rparr>)"
      by (simp add: addRoute_def convert_template [OF wf ps] dynamic_route_def)
    with find_dynamic_route [OF wf] match_segments_length show ?thesis
      by blast
  qed
  have shape: "list_all (\<lambda>v. CHR ''/'' \<notin> set v) vals \<longrightarrow>
        match_segments segs (join_segments vals) =
          (if list_all2 fits segs vals then Some (captures segs vals) else None)"
    using match_segments_join by blast
  have reg: "GET New ''/users/:id'' h = Inr (users_app h)"
    by (simp add: GET_users users_app_def New_def)
  have gen: "findRoute (users_app h) ''GET'' path =
         (if take 7 path = ''/users/'' \<and> drop 7 path \<noteq> [] \<and> CHR ''/'' \<notin> set (drop 7 path)
          then Some (users_route h, [''id'' \<mapsto> drop 7 path]) else None)" for path
    by (simp add: findRoute_def users_app_def New_def find_users_route)
  have hit: "findRoute (users_app h) ''GET'' ''/users/42'' = Some (users_route h, [''id'' \<mapsto> ''42''])"
    by (simp add: gen)
  have miss: "findRoute (users_app h) ''GET'' ''/users'' = None"
    by (simp add: gen)
  have nf: "ServeHTTP (users_app h) new_writer (request ''GET'' ''/users'') =
       Returned \<lparr>Request = request ''GET'' ''/users'',
         ResponseWriter = \<lparr>header = [''Content-Type'' \<mapsto> ''application/json''],
                            codes = [404],
                            written = [JObject [(''error'', JString ''Route not found'')]]\<rparr>,
         Params = Map.empty, Query = Map.empty, middlewareIndex = - 1\<rparr>"
    using not_found_response [of "users_app h" "request ''GET'' ''/users''" new_writer] miss
    by (simp add: request_def new_writer_def parseQuery_def)
  from general shape reg gen hit miss nf show ?thesis by blast
qed

theorem C4_witness:
  "GET New ''/users/:id/posts/:postId'' show_user
     = Inr (New\<lparr>routes := [dynamic_route ''GET'' posts_template show_user]\<rparr>)
   \<and> findRoute (New\<lparr>routes := [dynamic_route ''GET'' posts_template show_user]\<rparr>) ''GET''
        ''/users/7/posts/9''
       = Some (dynamic_route ''GET'' posts_template show_user, [''id'' \<mapsto> ''7'', ''postId'' \<mapsto> ''9''])
   \<and> findRoute (New\<lparr>routes := [dynamic_route ''GET'' posts_template show_user]\<rparr>) ''GET''
        ''/users/7/posts'' = None
   \<and> findRoute (New\<lparr>routes := [dynamic_route ''GET'' posts_template show_user]\<rparr>) ''GET''
        ''/users/7/posts/9/more'' = None
   \<and> match_segments posts_template (join_segments [''users'', ''7'', ''posts'', ''9''])
       = Some [''7'', ''9'']"
proof -
  have wf: "well_formed posts_template"
    by (simp add: posts_template_def regexp_meta_def)
  have ps: "params_of posts_template \<noteq> []"
    by (simp add: posts_template_def)
  have vs: "list_all (\<lambda>v. CHR ''/'' \<notin> set v) [''users'', ''7'', ''posts'', ''9'']"
    by simp
  have t: "template_of posts_template = ''/users/:id/posts/:postId''"
    by (simp add: posts_template_def)
  have n: "params_of posts_template = [''id'', ''postId'']"
    by (simp add: posts_template_def)
  have m1: "match_segments posts_template ''/users/7/posts/9'' = Some [''7'', ''9'']"
    by (simp add: posts_template_def)
  have m2: "match_segments posts_template ''/users/7/posts'' = None"
    by (simp add: posts_template_def)
  have m3: "match_segments posts_template ''/users/7/posts/9/more'' = None"
    by (simp add: posts_template_def)
  have f: "list_all2 fits posts_template [''users'', ''7'', ''posts'', ''9'']"
    by (simp add: posts_template_def)
  have c: "captures posts_template [''users'', ''7'', ''posts'', ''9''] = [''7'', ''9'']"
    by (simp add: posts_template_def)
  note inst = C4_dynamic_template_matching [where segs = posts_template and r = New
      and verb = "''GET''" and g = show_user and vals = "[''users'', ''7'', ''posts'', ''9'']"
      and h = show_user]
  from inst wf ps have
    reg: "addRoute New ''GET'' (template_of posts_template) show_user
        = Inr (New\<lparr>routes := routes New @ [dynamic_route ''GET'' posts_template show_user]\<rparr>)"
    and res: "\<And>path. findRoute (New\<lparr>routes := [dynamic_route ''GET'' posts_template show_user]\<rparr>) ''GET'' path =
            (case match_segments posts_template path of
               None \<Rightarrow> None
             | Some caps \<Rightarrow>
                 Some (dynamic_route ''GET'' posts_template show_user,
                       map_of (rev (zip (params_of posts_template) caps))))"
    by blast+
  from inst vs have sh: "match_segments posts_template (join_segments [''users'', ''7'', ''posts'', ''9''])
       = (if list_all2 fits posts_template [''users'', ''7'', ''posts'', ''9'']
          then Some (captures posts_template [''users'', ''7'', ''posts'', ''9'']) else None)"
    by blast
  have a: "GET New ''/users/:id/posts/:postId'' show_user
     = Inr (New\<lparr>routes := [dynamic_route ''GET'' posts_template show_user]\<rparr>)"
    using reg by (simp add: GET_def t New_def)
  have b: "findRoute (New\<lparr>routes := [dynamic_route ''GET'' posts_template show_user]\<rparr>) ''GET''
        ''/users/7/posts/9''
       = Some (dynamic_route ''GET'' posts_template show_user, [''id'' \<mapsto> ''7'', ''postId'' \<mapsto> ''9''])"
    by (simp add: res m1 n)
  have d: "findRoute (New\<lparr>routes := [dynamic_route ''GET'' posts_template show_user]\<rparr>) ''GET''
        ''/users/7/posts'' = None"
    by (simp add: res m2)
  have e: "findRoute (New\<lparr>routes := [dynamic_route ''GET'' posts_template show_user]\<rparr>) ''GET''
        ''/users/7/posts/9/more'' = None"
    by (simp add: res m3)
  have s: "match_segments posts_template (join_segments [''users'', ''7'', ''posts'', ''9''])
       = Some [''7'', ''9'']"
    using sh by (simp add: f c)
  from a b d e s show ?thesis by (intro conjI)
qed

text \<open>
  C1 as stated fails: with \<open>GET /users/:id\<close> registered before the static
  \<open>GET /users/new\<close>, resolving \<open>GET /users/new\<close> returns the dynamic route with
  \<open>id = "new"\<close>, and its handler is the one that answers.
\<close>

theorem C1_counterexample:
  "GET New ''/users/:id'' show_user = Inr (users_app show_user)
   \<and> GET (users_app show_user) ''/users/new'' (reply ''new'') = Inr shadow_app
   \<and> findRoute shadow_app ''GET'' ''/users/new'' = Some (users_route show_user, [''id'' \<mapsto> ''new''])
   \<and> written (ResponseWriter (outcome_context
         (ServeHTTP shadow_app new_writer (request ''GET'' ''/users/new''))))
       = [JObject [(''id'', JString ''new'')]]"
proof -
  have reg1: "GET New ''/users/:id'' show_user = Inr (users_app show_user)"
    by (simp add: GET_users users_app_def New_def)
  have reg2: "GET (users_app show_user) ''/users/new'' (reply ''new'') = Inr shadow_app"
    by (simp add: GET_static users_app_def shadow_app_def New_def)
  have res: "findRoute shadow_app ''GET'' ''/users/new'' = Some (users_route show_user, [''id'' \<mapsto> ''new''])"
    by (simp add: findRoute_def shadow_app_def New_def find_users_route)
  have run: "written (ResponseWriter (outcome_context
         (ServeHTTP shadow_app new_writer (request ''GET'' ''/users/new''))))
       = [JObject [(''id'', JString ''new'')]]"
    using res
    by (simp add: ServeHTTP_def request_def shadow_app_def New_def Next.simps users_route_def
        show_user_def JSON_def Encode_def Header_Set_def new_writer_def Param_def)
  from reg1 reg2 res run show ?thesis by blast
qed

text \<open>
  C1, amended. Resolution returns the first route, in registration order, that is
  registered under the method and matches the path, with the parameters bound for it. A
  static route registered for (method, path) is therefore returned, with an empty
  parameter map, when no route registered earlier under the same method matches the path;
  a dynamic route that matches the path and was registered earlier is returned instead.
\<close>

theorem C1_first_match:
  assumes "routes r = earlier @ hit # later"
    and "Route.Method hit = method"
    and "route_matches hit path"
    and "\<forall>d\<in>set earlier. Route.Method d = method \<longrightarrow> \<not> route_matches d path"
  shows "findRoute r method path = Some (hit, route_params hit path)
         \<and> (Pattern hit = None \<longrightarrow> Path hit = path \<and> route_params hit path = Map.empty)"
proof -
  have "findRoute_loop earlier method path = None"
    using assms(4) by (rule findRoute_loop_none)
  then have "findRoute_loop (earlier @ hit # later) method path = Some (hit, route_params hit path)"
    using assms(2,3) by (simp add: findRoute_loop_append findRoute_loop_step)
  moreover have "Pattern hit = None \<longrightarrow> Path hit = path \<and> route_params hit path = Map.empty"
    using assms(3) by (auto simp: route_matches_def route_params_def)
  ultimately show ?thesis
    using assms(1) by (simp add: findRoute_def)
qed

theorem C1_first_match_witness:
  "findRoute static_first_app ''GET'' ''/users/new''
     = Some (static_route ''/users/new'' (reply ''new''), Map.empty)"
proof -
  have h1: "routes static_first_app
      = [static_route ''/health'' (reply ''ok'')] @ static_route ''/users/new'' (reply ''new'')
          # [users_route show_user]"
    by (simp add: static_first_app_def New_def)
  have h2: "Route.Method (static_route ''/users/new'' (reply ''new'')) = ''GET''"
    by (simp add: static_route_def)
  have h3: "route_matches (static_route ''/users/new'' (reply ''new'')) ''/users/new''"
    by (simp add: route_matches_def static_route_def)
  have h4: "\<forall>d\<in>set [static_route ''/health'' (reply ''ok'')].
      Route.Method d = ''GET'' \<longrightarrow> \<not> route_matches d ''/users/new''"
    by (simp add: route_matches_def static_route_def)
  have p: "Pattern (static_route ''/users/new'' (reply ''new'')) = None"
    by (simp add: static_route_def)
  show ?thesis
    using C1_first_match [OF h1 h2 h3 h4] p by simp
qed

text \<open>
  C10. In the router of package gofsen resolution comes before the middleware chain: for
  a request that no registered route matches, \<open>ServeHTTP\<close> writes the 404 response
  \<open>{"error": "Route not found"}\<close> and returns with the cursor still at \<open>-1\<close>; the
  outcome is the same whatever middleware is registered, none of it is invoked.
\<close>

theorem C10_no_route_no_middleware:
  assumes "findRoute r (http_Request.Method req) (URL_Path req) = None"
  shows "ServeHTTP (r\<lparr>middlewares := mws\<rparr>) w req =
     Returned \<lparr>Request = req,
       ResponseWriter = \<lparr>header = (header w)(''Content-Type'' \<mapsto> ''application/json''),
                          codes = codes w @ [404],
                          written = written w @ [JObject [(''error'', JString ''Route not found'')]]\<rparr>,
       Params = Map.empty, Query = parseQuery (URL_RawQuery req), middlewareIndex = - 1\<rparr>"
proof -
  have "findRoute (r\<lparr>middlewares := mws\<rparr>) (http_Request.Method req) (URL_Path req) = None"
    using assms by (simp add: findRoute_def)
  then show ?thesis by (rule not_found_response)
qed

theorem C10_witness:
  "ServeHTTP (shadow_app\<lparr>middlewares := [tracer ''A'', panicking ''boom'']\<rparr>) new_writer
      (request ''GET'' ''/nonexistent'') =
     Returned \<lparr>Request = request ''GET'' ''/nonexistent'',
       ResponseWriter = \<lparr>header = [''Content-Type'' \<mapsto> ''application/json''],
                          codes = [404],
                          written = [JObject [(''error'', JString ''Route not found'')]]\<rparr>,
       Params = Map.empty, Query = Map.empty, middlewareIndex = - 1\<rparr>"
proof -
  have h: "findRoute shadow_app (http_Request.Method (request ''GET'' ''/nonexistent''))
             (URL_Path (request ''GET'' ''/nonexistent'')) = None"
    by (simp add: findRoute_def shadow_app_def New_def request_def find_users_route find_static_route)
  show ?thesis
    using C10_no_route_no_middleware [OF h, of "[tracer ''A'', panicking ''boom'']" new_writer]
    by (simp add: new_writer_def request_def parseQuery_def)
qed

section \<open>Registration and lookup in the two routers\<close>

lemma map_of_assign: "map_of (assign k v xs) = (map_of xs)(k \<mapsto> v)"
  by (induction xs) (auto simp: fun_eq_iff)

lemma lookup_Handle:
  "lookup_handler (Handle_routes rts method path handler) m p =
     (if m = method \<and> p = path then Some handler else lookup_handler rts m p)"
  by (auto simp: lookup_handler_def Handle_routes_def Let_def map_of_assign split: option.splits)

lemma wrap_loop_foldr:
  "i \<le> length mws \<Longrightarrow> wrap_loop i mws h = foldr (\<lambda>mw k. mw k) (take i mws) h"
proof (induction i arbitrary: h)
  case 0
  show ?case by simp
next
  case (Suc i)
  then have "take (Suc i) mws = take i mws @ [mws ! i]"
    by (simp add: take_Suc_conv_app_nth)
  with Suc show ?case by simp
qed

lemma wrap_foldr: "wrap mws h = foldr (\<lambda>mw k. mw k) mws h"
  by (simp add: wrap_def wrap_loop_foldr)

lemma serve_found:
  "lookup_handler (router_routes r) (http_Request.Method req) (URL_Path req) = Some h \<Longrightarrow>
   router_ServeHTTP gl e r w req =
     wrap (router_middlewares r) h \<lparr>ctx_Request = req, Writer = w, ctx_Params = Map.empty\<rparr>"
  by (simp add: router_ServeHTTP_def)

lemma addRoute_routes:
  "addRoute g method path h = Inr g' \<Longrightarrow>
   \<exists>pat ps. convertPathToRegex path = Inr (pat, ps) \<and>
     routes g' = routes g @ [\<lparr>Method = method, Path = path, Handler = h, Pattern = pat, Params = ps\<rparr>]"
  by (auto simp: addRoute_def split: sum.splits)

lemma dead_second_registration:
  assumes "addRoute g method path h1 = Inr g1" and "addRoute g1 method path h2 = Inr g2"
  shows "findRoute g2 m p = findRoute g1 m p"
proof -
  obtain pat ps where c: "convertPathToRegex path = Inr (pat, ps)"
    and r1: "routes g1 = routes g @ [\<lparr>Method = method, Path = path, Handler = h1, Pattern = pat, Params = ps\<rparr>]"
    using addRoute_routes [OF assms(1)] by blast
  have r2: "routes g2 = routes g1 @ [\<lparr>Method = method, Path = path, Handler = h2, Pattern = pat, Params = ps\<rparr>]"
    using addRoute_routes [OF assms(2)] c by auto
  let ?R1 = "\<lparr>Method = method, Path = path, Handler = h1, Pattern = pat, Params = ps\<rparr>"
  let ?R2 = "\<lparr>Method = method, Path = path, Handler = h2, Pattern = pat, Params = ps\<rparr>"
  have same: "route_matches ?R2 p = route_matches ?R1 p"
    by (cases pat) (simp_all add: route_matches_def)
  have "findRoute_loop ([?R1] @ [?R2]) m p = findRoute_loop [?R1] m p"
  proof (cases "method = m \<and> route_matches ?R1 p")
    case True
    then show ?thesis by (auto simp: findRoute_loop_step)
  next
    case False
    then have "\<not> (method = m \<and> route_matches ?R2 p)"
      using same by simp
    with False show ?thesis by (auto simp: findRoute_loop_step)
  qed
  then have "findRoute_loop (routes g @ [?R1] @ [?R2]) m p = findRoute_loop (routes g @ [?R1]) m p"
    by (simp only: findRoute_loop_append [of "routes g"])
  then show ?thesis
    by (simp add: findRoute_def r1 r2)
qed

text \<open>
  C7 as stated fails in package gofsen: after \<open>GET /x\<close> is registered twice, a request
  for \<open>GET /x\<close> is answered by the handler registered first.
\<close>

theorem C7_counterexample:
  "GET New ''/x'' (reply ''first'') = Inr (New\<lparr>routes := [static_route ''/x'' (reply ''first'')]\<rparr>)
   \<and> GET (New\<lparr>routes := [static_route ''/x'' (reply ''first'')]\<rparr>) ''/x'' (reply ''second'') = Inr dup_app
   \<and> written (ResponseWriter (outcome_context (ServeHTTP dup_app new_writer (request ''GET'' ''/x''))))
       = [JObject [(''message'', JString ''first'')]]"
proof -
  have reg1: "GET New ''/x'' (reply ''first'') = Inr (New\<lparr>routes := [static_route ''/x'' (reply ''first'')]\<rparr>)"
    by (simp add: GET_static New_def)
  have reg2: "GET (New\<lparr>routes := [static_route ''/x'' (reply ''first'')]\<rparr>) ''/x'' (reply ''second'') = Inr dup_app"
    by (simp add: GET_static New_def dup_app_def)
  have run: "written (ResponseWriter (outcome_context (ServeHTTP dup_app new_writer (request ''GET'' ''/x''))))
       = [JObject [(''message'', JString ''first'')]]"
  proof -
    have res: "findRoute dup_app ''GET'' ''/x'' = Some (static_route ''/x'' (reply ''first''), Map.empty)"
      by (simp add: findRoute_def dup_app_def New_def find_static_route)
    have mw: "middlewares dup_app = []"
      by (simp add: dup_app_def New_def)
    show ?thesis
      by (simp add: ServeHTTP_def request_def res mw Next.simps static_route_def reply_def
          JSON_def Encode_def Header_Set_def new_writer_def)
  qed
  from reg1 reg2 run show ?thesis by blast
qed

text \<open>
  C7, amended. In the application's router (package router, a map per method) registering
  a route twice for the same (method, path) replaces the prior handler: the table then
  holds the second handler for the pair and every request for the pair runs the second
  handler inside the global middleware. In package gofsen a registration appends to the
  route list and resolution takes the first match, so a second registration of the same
  (method, template) changes the resolution of no request: the handler registered first
  keeps serving the pair.
\<close>

theorem C7_duplicate_registration:
  "lookup_handler (router_routes (router_Handle (router_Handle r method path first) method path second))
      method path = Some second
   \<and> (http_Request.Method req = method \<and> URL_Path req = path \<longrightarrow>
        router_ServeHTTP gl e (router_Handle (router_Handle r method path first) method path second) w req
          = wrap (router_middlewares r) second \<lparr>ctx_Request = req, Writer = w, ctx_Params = Map.empty\<rparr>)
   \<and> (addRoute g method path h1 = Inr g1 \<and> addRoute g1 method path h2 = Inr g2 \<longrightarrow>
        findRoute g2 m p = findRoute g1 m p)"
proof -
  have a: "lookup_handler (router_routes (router_Handle (router_Handle r method path first) method path second))
      method path = Some second"
    by (simp add: router_Handle_def lookup_Handle)
  have b: "router_middlewares (router_Handle (router_Handle r method path first) method path second)
      = router_middlewares r"
    by (simp add: router_Handle_def)
  have c: "http_Request.Method req = method \<and> URL_Path req = path \<longrightarrow>
        router_ServeHTTP gl e (router_Handle (router_Handle r method path first) method path second) w req
          = wrap (router_middlewares r) second \<lparr>ctx_Request = req, Writer = w, ctx_Params = Map.empty\<rparr>"
    using serve_found [of "router_Handle (router_Handle r method path first) method path second" req second gl e w]
      a b by auto
  from a c dead_second_registration show ?thesis by blast
qed

theorem C7_witness:
  "written (Writer (outcome_context
      (router_ServeHTTP defaultLogger example_env
         (router_Handle (router_Handle router_empty ''GET'' ''/x'' (types_reply ''first''))
            ''GET'' ''/x'' (types_reply ''second''))
         new_writer (request ''GET'' ''/x''))))
     = [JObject [(''message'', JString ''second'')]]
   \<and> findRoute dup_app ''GET'' ''/x''
       = findRoute (New\<lparr>routes := [static_route ''/x'' (reply ''first'')]\<rparr>) ''GET'' ''/x''"
proof -
  have reg1: "addRoute New ''GET'' ''/x'' (reply ''first'') = Inr (New\<lparr>routes := [static_route ''/x'' (reply ''first'')]\<rparr>)"
    using GET_static [of "''/x''" New "reply ''first''"] by (simp add: GET_def New_def)
  have reg2: "addRoute (New\<lparr>routes := [static_route ''/x'' (reply ''first'')]\<rparr>) ''GET'' ''/x'' (reply ''second'') = Inr dup_app"
    using GET_static [of "''/x''" "New\<lparr>routes := [static_route ''/x'' (reply ''first'')]\<rparr>" "reply ''second''"]
    by (simp add: GET_def New_def dup_app_def)
  have rq: "http_Request.Method (request ''GET'' ''/x'') = ''GET'' \<and> URL_Path (request ''GET'' ''/x'') = ''/x''"
    by (simp add: request_def)
  note inst = C7_duplicate_registration [of router_empty "''GET''" "''/x''" "types_reply ''first''"
      "types_reply ''second''" "request ''GET'' ''/x''" defaultLogger example_env new_writer
      New "reply ''first''" "New\<lparr>routes := [static_route ''/x'' (reply ''first'')]\<rparr>" "reply ''second''" dup_app
      "''GET''" "''/x''"]
  from inst rq reg1 reg2 show ?thesis
    by (simp add: router_empty_def wrap_def types_reply_def types_JSON_def Encode_def
        WriteHeader_def Header_Set_def new_writer_def)
qed

section \<open>Middleware order\<close>

text \<open>
  C2. The claim: a request to a route registered under a group runs the global
  middleware in registration order, then the group's middleware in registration order,
  then the handler; global \<open>[A, B]\<close> and group \<open>[C]\<close> run as \<open>A, B, C, handler\<close>.
  Package gofsen does not do so. \<open>RouteGroup.Use\<close> stores \<open>C\<close> in the group, the
  group's registrations pass only the prefixed path and the handler to \<open>addRoute\<close>, and
  \<open>ServeHTTP\<close> builds the chain from the router's list alone: for the application below
  the steps that run are \<open>A, B, handler\<close>.
\<close>

theorem C2_gofsen_group_middleware_not_run:
  "Group (Use (Use New (tracer ''A'')) (tracer ''B'')) ''/api'' = (group_app0, api_group)
   \<and> group_middlewares (RouteGroup_Use api_group (tracer ''C'')) = [tracer ''C'']
   \<and> RouteGroup_GET group_app0 (RouteGroup_Use api_group (tracer ''C'')) ''/x'' (mark ''handler'')
       = Inr group_app
   \<and> written (ResponseWriter (outcome_context
         (ServeHTTP group_app new_writer (request ''GET'' ''/api/x''))))
       = [JString ''A'', JString ''B'', JString ''handler'']"
proof -
  have g: "Group (Use (Use New (tracer ''A'')) (tracer ''B'')) ''/api'' = (group_app0, api_group)"
    by (simp add: Group_def Let_def Use_def New_def group_app0_def api_group_def)
  have u: "group_middlewares (RouteGroup_Use api_group (tracer ''C'')) = [tracer ''C'']"
    by (simp add: RouteGroup_Use_def api_group_def)
  have reg: "RouteGroup_GET group_app0 (RouteGroup_Use api_group (tracer ''C'')) ''/x'' (mark ''handler'')
       = Inr group_app"
    using GET_static [of "''/api/x''" group_app0 "mark ''handler''"]
    by (simp add: RouteGroup_GET_def RouteGroup_Use_def api_group_def GET_def group_app_def
        group_app0_def)
  have res: "findRoute group_app ''GET'' ''/api/x''
      = Some (static_route ''/api/x'' (mark ''handler''), Map.empty)"
    by (simp add: findRoute_def group_app_def group_app0_def find_static_route)
  have mw: "middlewares group_app = [tracer ''A'', tracer ''B'']"
    by (simp add: group_app_def group_app0_def)
  have run: "written (ResponseWriter (outcome_context
         (ServeHTTP group_app new_writer (request ''GET'' ''/api/x''))))
       = [JString ''A'', JString ''B'', JString ''handler'']"
    by (simp add: ServeHTTP_def request_def res mw Next.simps static_route_def tracer_def
        mark_def Encode_def new_writer_def)
  from g u reg run show ?thesis by blast
qed

text \<open>
  The application's router does what the claim says. \<open>RouteGroup.Handle\<close> wraps the
  handler in the middleware that the group holds at the time of the registration, and
  \<open>ServeHTTP\<close> wraps the stored handler in the global middleware: the request runs the
  composition of the global list followed by the group's list around the handler.
\<close>

lemma router_group_chain:
  assumes "http_Request.Method req = method" and "URL_Path req = rg_prefix g @ path"
  shows "router_ServeHTTP gl e (router_RouteGroup_Handle r g method path h) w req
     = foldr (\<lambda>mw k. mw k) (router_middlewares r @ rg_middlewares g) h
         \<lparr>ctx_Request = req, Writer = w, ctx_Params = Map.empty\<rparr>"
proof -
  let ?r = "router_RouteGroup_Handle r g method path h"
  have "lookup_handler (router_routes ?r) (http_Request.Method req) (URL_Path req)
      = Some (wrap (rg_middlewares g) h)"
    using assms by (simp add: router_RouteGroup_Handle_def router_Handle_def lookup_Handle)
  moreover have "router_middlewares ?r = router_middlewares r"
    by (simp add: router_RouteGroup_Handle_def router_Handle_def)
  ultimately show ?thesis
    using serve_found [of ?r req "wrap (rg_middlewares g) h" gl e w]
    by (simp add: wrap_foldr)
qed

lemma router_group_order_example:
  "written (Writer (outcome_context
     (router_ServeHTTP gl e
        (router_RouteGroup_Handle
           (router_Use (router_Use router_empty [types_tracer ''A'']) [types_tracer ''B''])
           (router_RouteGroup_Use (router_Group router_empty ''/api'') [types_tracer ''C''])
           ''GET'' ''/x'' (types_mark ''handler''))
        new_writer (request ''GET'' ''/api/x''))))
   = [JString ''A'', JString ''B'', JString ''C'', JString ''handler'']"
proof -
  have m: "http_Request.Method (request ''GET'' ''/api/x'') = ''GET''"
    by (simp add: request_def)
  have p: "URL_Path (request ''GET'' ''/api/x'')
      = rg_prefix (router_RouteGroup_Use (router_Group router_empty ''/api'') [types_tracer ''C'']) @ ''/x''"
    by (simp add: request_def router_RouteGroup_Use_def router_Group_def)
  show ?thesis
    unfolding router_group_chain [OF m p]
    by (simp add: router_Use_def router_empty_def router_RouteGroup_Use_def router_Group_def
        types_tracer_def types_mark_def Encode_def new_writer_def)
qed

section \<open>The structured error response\<close>

lemma SendDetailedError_eq:
  "SendDetailedError gl e ctx code message details =
     ctx\<lparr>Writer :=
       \<lparr>header = (header (Writer ctx))(''Content-Type'' \<mapsto> ''application/json''),
        codes = codes (Writer ctx) @ [code],
        written = written (Writer ctx) @ [error_payload gl e (ctx_Request ctx) code message details]\<rparr>\<rparr>"
  by (auto simp: SendDetailedError_def error_payload_def detailed_def Let_def Encode_def
      WriteHeader_def Header_Set_def marshal_ErrorResponse_def marshal_DetailedErrorResponse_def
      ErrorResponse_members_def omitempty_string_def ErrorResponse.defs DetailedErrorResponse.defs)

lemma payload_plain:
  "\<not> detailed gl \<Longrightarrow>
   error_payload gl e req code message details =
     JObject ([(''error'', JString (StatusText e code))]
       @ omitempty_string ''message'' message
       @ [(''path'', JString (URL_Path req)),
          (''method'', JString (http_Request.Method req)),
          (''timestamp'', JString (now e)),
          (''code'', JInt (int code))])"
  by (simp add: error_payload_def omitempty_string_def)

lemma payload_detailed:
  "detailed gl \<Longrightarrow>
   error_payload gl e req code message details =
     JObject ([(''error'', JString (StatusText e code))]
       @ omitempty_string ''message'' message
       @ [(''path'', JString (URL_Path req)),
          (''method'', JString (http_Request.Method req)),
          (''timestamp'', JString (now e)),
          (''code'', JInt (int code))]
       @ (case details of None \<Rightarrow> [] | Some v \<Rightarrow> [(''details'', v)])
       @ [(''headers'', JObject
            [(''User-Agent'', JString (Header_Get req ''User-Agent'')),
             (''Content-Type'', JString (Header_Get req ''Content-Type'')),
             (''Authorization'', JString (maskAuthHeader (Header_Get req ''Authorization''))),
             (''Origin'', JString (Header_Get req ''Origin''))])])"
  by (simp add: error_payload_def omitempty_string_def)

lemma payload_keys:
  "message \<noteq> [] \<Longrightarrow> required_keys \<subseteq> json_keys (error_payload gl e req code message details)"
  by (cases "detailed gl")
    (auto simp: payload_plain payload_detailed required_keys_def omitempty_string_def)

lemma payload_code:
  "json_member (error_payload gl e req code message details) ''code'' = Some (JInt (int code))"
  by (cases "detailed gl")
    (auto simp: payload_plain payload_detailed omitempty_string_def split: option.splits)

lemma payload_details:
  "json_member (error_payload gl e req code message details) ''details''
     = (if detailed gl then details else None)"
  by (cases "detailed gl")
    (auto simp: payload_plain payload_detailed omitempty_string_def split: option.splits)


lemma gofsen_Error_eq:
  "Error clock c code message =
     c\<lparr>ResponseWriter :=
        \<lparr>header = (header (ResponseWriter c))(''Content-Type'' \<mapsto> ''application/json''),
         codes = codes (ResponseWriter c) @ [code],
         written = written (ResponseWriter c) @
           [JObject [(''error'', JString message),
                     (''status'', JInt (int code)),
                     (''path'', JString (URL_Path (Request c))),
                     (''method'', JString (http_Request.Method (Request c))),
                     (''time'', JString clock)]]\<rparr>\<rparr>"
  by (simp add: Error_def JSON_def Status_def Encode_def WriteHeader_def Header_Set_def)

lemma types_Error_eq:
  "types_Error ctx status message =
     ctx\<lparr>Writer :=
        \<lparr>header = (header (Writer ctx))(''Content-Type'' \<mapsto> ''application/json''),
         codes = codes (Writer ctx) @ [status],
         written = written (Writer ctx) @ [JObject [(''error'', JString message)]]\<rparr>\<rparr>"
  by (simp add: types_Error_def types_JSON_def Encode_def WriteHeader_def Header_Set_def)

lemma allowed_loop_eq:
  "allowed_loop rts path (pathExists, allowedMethods) =
     (pathExists \<or> methods_with_path rts path \<noteq> [], allowedMethods @ methods_with_path rts path)"
  by (induction rts arbitrary: pathExists allowedMethods)
    (auto simp: methods_with_path_def)

lemma methods_with_path_set:
  assumes "distinct (map fst rts)"
  shows "set (methods_with_path rts path) = {m. lookup_handler rts m path \<noteq> None}"
proof -
  have "m \<in> set (methods_with_path rts path) \<longleftrightarrow> lookup_handler rts m path \<noteq> None" for m
  proof
    assume "m \<in> set (methods_with_path rts path)"
    then obtain paths where "(m, paths) \<in> set rts" "map_of paths path \<noteq> None"
      by (auto simp: methods_with_path_def)
    then show "lookup_handler rts m path \<noteq> None"
      using assms by (simp add: lookup_handler_def)
  next
    assume "lookup_handler rts m path \<noteq> None"
    then obtain paths where "map_of rts m = Some paths" "map_of paths path \<noteq> None"
      by (auto simp: lookup_handler_def split: option.splits)
    then have "(m, paths) \<in> set rts" "map_of paths path \<noteq> None"
      by (auto dest: map_of_SomeD)
    then show "m \<in> set (methods_with_path rts path)"
      by (force simp: methods_with_path_def)
  qed
  then show ?thesis by blast
qed

lemma methods_with_path_distinct:
  "distinct (map fst rts) \<Longrightarrow> distinct (methods_with_path rts path)"
  unfolding methods_with_path_def by (rule distinct_map_filter)

lemma lookup_empty: "lookup_handler [] m p = None"
  by (simp add: lookup_handler_def)

lemma serve_method_not_allowed:
  assumes "lookup_handler (router_routes r) (http_Request.Method req) (URL_Path req) = None"
    and "methods_with_path (router_routes r) (URL_Path req) = first # others"
  shows "router_ServeHTTP gl e r w req =
     Returned (SendDetailedError gl e \<lparr>ctx_Request = req, Writer = w, ctx_Params = Map.empty\<rparr>
       405 msg_405
       (Some (JObject [(''allowed_methods'', JArray (map JString (first # others))),
                       (''suggestion'', JString (''Essayez avec: '' @ first))])))"
  using assms by (simp add: router_ServeHTTP_def allowed_loop_eq)

lemma msg_405_nonempty: "msg_405 \<noteq> []"
  by (simp add: msg_405_def)

lemma serve_not_found:
  assumes "lookup_handler (router_routes r) (http_Request.Method req) (URL_Path req) = None"
    and "methods_with_path (router_routes r) (URL_Path req) = []"
  shows "router_ServeHTTP gl e r w req =
     Returned (SendDetailedError gl e \<lparr>ctx_Request = req, Writer = w, ctx_Params = Map.empty\<rparr>
       404 msg_404
       (Some (JObject
          [(''suggestions'', JArray (map JString
              (SuggestSimilarRoutes (URL_Path req) (available_loop (router_routes r) [])))),
           (''available_routes'', JArray (map JString (available_loop (router_routes r) []))),
           (''tip'', JString tip_404)])))"
  using assms by (simp add: router_ServeHTTP_def allowed_loop_eq Let_def)

lemma msg_404_nonempty: "msg_404 \<noteq> []"
  by (simp add: msg_404_def)

text \<open>
  C5 as stated fails for the error helper of the context: \<open>Context.Error\<close> of package
  gofsen writes an object with the keys \<open>error, status, path, method, time\<close>, without
  \<open>message\<close>, \<open>timestamp\<close> and \<open>code\<close>.
\<close>

theorem C5_counterexample:
  "written (ResponseWriter
      (Error ''2025-01-02T03:04:05Z''
         \<lparr>Request = request ''POST'' ''/users'', ResponseWriter = new_writer, Params = Map.empty,
          Query = Map.empty, middlewareIndex = 0\<rparr>
         400 ''Invalid JSON body''))
     = [JObject [(''error'', JString ''Invalid JSON body''),
                 (''status'', JInt 400),
                 (''path'', JString ''/users''),
                 (''method'', JString ''POST''),
                 (''time'', JString ''2025-01-02T03:04:05Z'')]]
   \<and> \<not> required_keys \<subseteq> json_keys
         (JObject [(''error'', JString ''Invalid JSON body''),
                   (''status'', JInt 400),
                   (''path'', JString ''/users''),
                   (''method'', JString ''POST''),
                   (''time'', JString ''2025-01-02T03:04:05Z'')])"
  by (simp add: gofsen_Error_eq new_writer_def request_def required_keys_def)

text \<open>
  C5, amended. Every failure response written through \<open>GofsenLogger.SendDetailedError\<close>
  with a non-empty message is one JSON object with at least the keys \<open>error\<close>,
  \<open>message\<close>, \<open>path\<close>, \<open>method\<close>, \<open>timestamp\<close> and \<open>code\<close> (the field \<open>message\<close>
  is tagged \<open>omitempty\<close>; \<open>timestamp\<close> is the reading of the clock as the library
  formats it). This is how the application's router answers route not found and method
  not allowed, how \<open>AuthMiddleware\<close> answers a missing or invalid token and how
  \<open>RecoveryMiddleware\<close> answers a recovered panic, each with a non-empty message. The
  error helpers of the contexts write other objects: \<open>Context.Error\<close> of package gofsen
  the keys \<open>error, status, path, method, time\<close>, \<open>Context.Error\<close> of package types the
  key \<open>error\<close> alone.
\<close>

theorem C5_failure_payload_keys:
  "(message \<noteq> [] \<longrightarrow>
      required_keys \<subseteq> json_keys (error_payload gl e (ctx_Request ctx) code message details))
   \<and> written (Writer (SendDetailedError gl e ctx code message details))
       = written (Writer ctx) @ [error_payload gl e (ctx_Request ctx) code message details]
   \<and> (lookup_handler (router_routes r) (http_Request.Method req) (URL_Path req) = None \<longrightarrow>
        (\<exists>code' message' details'. message' \<noteq> [] \<and> (code' = 404 \<or> code' = 405) \<and>
           router_ServeHTTP gl e r w req =
             Returned (SendDetailedError gl e
               \<lparr>ctx_Request = req, Writer = w, ctx_Params = Map.empty\<rparr> code' message' details')))
   \<and> (Header_Get (ctx_Request ctx) ''Authorization'' = []
         \<or> \<not> ValidateToken (Header_Get (ctx_Request ctx) ''Authorization'') \<longrightarrow>
        (\<exists>message' details'. message' \<noteq> [] \<and>
           AuthMiddleware ValidateToken gl e next ctx
             = Returned (SendDetailedError gl e ctx 401 message' details')))
   \<and> (next ctx = Panicked v ctx' \<longrightarrow>
        (\<exists>message' details'. message' \<noteq> [] \<and>
           RecoveryMiddleware gl e next ctx
             = Returned (SendDetailedError gl e ctx' 500 message' details')))
   \<and> json_keys (last (written (ResponseWriter (Error clock c code message))))
       = {''error'', ''status'', ''path'', ''method'', ''time''}
   \<and> json_keys (last (written (Writer (types_Error ctx code message)))) = {''error''}"
proof -
  have a: "message \<noteq> [] \<longrightarrow>
      required_keys \<subseteq> json_keys (error_payload gl e (ctx_Request ctx) code message details)"
    by (simp add: payload_keys)
  have b: "written (Writer (SendDetailedError gl e ctx code message details))
       = written (Writer ctx) @ [error_payload gl e (ctx_Request ctx) code message details]"
    by (simp add: SendDetailedError_eq)
  have c: "lookup_handler (router_routes r) (http_Request.Method req) (URL_Path req) = None \<longrightarrow>
        (\<exists>code' message' details'. message' \<noteq> [] \<and> (code' = 404 \<or> code' = 405) \<and>
           router_ServeHTTP gl e r w req =
             Returned (SendDetailedError gl e
               \<lparr>ctx_Request = req, Writer = w, ctx_Params = Map.empty\<rparr> code' message' details'))"
  proof
    assume l: "lookup_handler (router_routes r) (http_Request.Method req) (URL_Path req) = None"
    show "\<exists>code' message' details'. message' \<noteq> [] \<and> (code' = 404 \<or> code' = 405) \<and>
           router_ServeHTTP gl e r w req =
             Returned (SendDetailedError gl e
               \<lparr>ctx_Request = req, Writer = w, ctx_Params = Map.empty\<rparr> code' message' details')"
    proof (cases "methods_with_path (router_routes r) (URL_Path req)")
      case Nil
      from serve_not_found [OF l Nil] msg_404_nonempty show ?thesis by blast
    next
      case (Cons first others)
      from serve_method_not_allowed [OF l Cons] msg_405_nonempty show ?thesis by blast
    qed
  qed
  have d: "Header_Get (ctx_Request ctx) ''Authorization'' = []
         \<or> \<not> ValidateToken (Header_Get (ctx_Request ctx) ''Authorization'') \<longrightarrow>
        (\<exists>message' details'. message' \<noteq> [] \<and>
           AuthMiddleware ValidateToken gl e next ctx
             = Returned (SendDetailedError gl e ctx 401 message' details'))"
    by (auto simp: AuthMiddleware_def Let_def)
  have f: "next ctx = Panicked v ctx' \<longrightarrow>
        (\<exists>message' details'. message' \<noteq> [] \<and>
           RecoveryMiddleware gl e next ctx
             = Returned (SendDetailedError gl e ctx' 500 message' details'))"
    by (auto simp: RecoveryMiddleware_def)
  have g: "json_keys (last (written (ResponseWriter (Error clock c code message))))
       = {''error'', ''status'', ''path'', ''method'', ''time''}"
    by (simp add: gofsen_Error_eq)
  have h: "json_keys (last (written (Writer (types_Error ctx code message)))) = {''error''}"
    by (simp add: types_Error_eq)
  from a b c d f g h show ?thesis by blast
qed

theorem C5_witness:
  "required_keys \<subseteq> json_keys (error_payload defaultLogger example_env
       (ctx_Request no_auth_context) 401 ''Unauthorized'' None)
   \<and> (\<exists>code' message' details'. message' \<noteq> [] \<and> (code' = 404 \<or> code' = 405) \<and>
         router_ServeHTTP defaultLogger example_env router_empty new_writer (request ''GET'' ''/nope'') =
           Returned (SendDetailedError defaultLogger example_env
             \<lparr>ctx_Request = request ''GET'' ''/nope'', Writer = new_writer, ctx_Params = Map.empty\<rparr>
             code' message' details'))
   \<and> (\<exists>message' details'. message' \<noteq> [] \<and>
         AuthMiddleware (\<lambda>token. True) defaultLogger example_env (types_panicking ''boom'') no_auth_context
           = Returned (SendDetailedError defaultLogger example_env no_auth_context 401 message' details'))
   \<and> (\<exists>message' details'. message' \<noteq> [] \<and>
         RecoveryMiddleware defaultLogger example_env (types_panicking ''boom'') no_auth_context
           = Returned (SendDetailedError defaultLogger example_env no_auth_context 500 message' details'))"
proof -
  have h1: "''Unauthorized'' \<noteq> []" by simp
  have h2: "lookup_handler (router_routes router_empty) (http_Request.Method (request ''GET'' ''/nope''))
      (URL_Path (request ''GET'' ''/nope'')) = None"
    by (simp add: router_empty_def lookup_empty)
  have h3: "Header_Get (ctx_Request no_auth_context) ''Authorization'' = []"
    by (simp add: no_auth_context_def request_def Header_Get_def)
  have h4: "types_panicking ''boom'' no_auth_context = Panicked ''boom'' no_auth_context"
    by (simp add: types_panicking_def)
  from C5_failure_payload_keys [of "''Unauthorized''" defaultLogger example_env no_auth_context 401 None
      router_empty "request ''GET'' ''/nope''" new_writer "\<lambda>token. True" "types_panicking ''boom''"
      "''boom''" no_auth_context] h1 h2 h3 h4
  show ?thesis by blast
qed

section \<open>Method not allowed\<close>

text \<open>
  One order in which the map of a router with \<open>POST /x\<close> and \<open>GET /x\<close> can be
  visited: the list of allowed methods comes out as \<open>POST, GET\<close>.
\<close>

lemma allowed_methods_in_table_order:
  "written (Writer (outcome_context
     (router_ServeHTTP debugLogger example_env
        (router_Handle (router_Handle router_empty ''POST'' ''/x'' (types_reply ''created''))
           ''GET'' ''/x'' (types_reply ''ok''))
        new_writer (request ''DELETE'' ''/x''))))
   = [JObject [(''error'', JString ''Method Not Allowed''),
               (''message'', JString msg_405),
               (''path'', JString ''/x''),
               (''method'', JString ''DELETE''),
               (''timestamp'', JString ''2025-01-02T03:04:05Z''),
               (''code'', JInt 405),
               (''details'', JObject [(''allowed_methods'', JArray [JString ''POST'', JString ''GET'']),
                                      (''suggestion'', JString ''Essayez avec: POST'')]),
               (''headers'', JObject [(''User-Agent'', JString []),
                                      (''Content-Type'', JString []),
                                      (''Authorization'', JString []),
                                      (''Origin'', JString [])])]]"
proof -
  let ?r = "router_Handle (router_Handle router_empty ''POST'' ''/x'' (types_reply ''created''))
           ''GET'' ''/x'' (types_reply ''ok'')"
  have l: "lookup_handler (router_routes ?r) (http_Request.Method (request ''DELETE'' ''/x''))
      (URL_Path (request ''DELETE'' ''/x'')) = None"
    by (simp add: router_Handle_def lookup_Handle lookup_empty router_empty_def request_def)
  have m: "methods_with_path (router_routes ?r) (URL_Path (request ''DELETE'' ''/x''))
      = ''POST'' # [''GET'']"
    by (simp add: router_Handle_def Handle_routes_def router_empty_def request_def
        methods_with_path_def)
  have dt: "detailed debugLogger"
    by (simp add: detailed_def debugLogger_def)
  show ?thesis
    unfolding serve_method_not_allowed [OF l m] SendDetailedError_eq payload_detailed [OF dt]
    by (simp add: new_writer_def request_def example_env_def example_StatusText_def
        omitempty_string_def msg_405_def Header_Get_def maskAuthHeader_def)
qed


text \<open>
  With the logger the package starts with (\<open>Level = LogInfo\<close>), the 405 response for
  \<open>POST /health\<close>, \<open>/health\<close> being registered under \<open>GET\<close> only, has no \<open>details\<close>.
\<close>

lemma default_logger_sends_no_details:
  "router_ServeHTTP defaultLogger example_env health_router new_writer (request ''POST'' ''/health'')
     = Returned \<lparr>ctx_Request = request ''POST'' ''/health'',
         Writer = \<lparr>header = [''Content-Type'' \<mapsto> ''application/json''],
                    codes = [405],
                    written = [JObject [(''error'', JString ''Method Not Allowed''),
                                        (''message'', JString msg_405),
                                        (''path'', JString ''/health''),
                                        (''method'', JString ''POST''),
                                        (''timestamp'', JString ''2025-01-02T03:04:05Z''),
                                        (''code'', JInt 405)]]\<rparr>,
         ctx_Params = Map.empty\<rparr>"
proof -
  have l: "lookup_handler (router_routes health_router)
      (http_Request.Method (request ''POST'' ''/health'')) (URL_Path (request ''POST'' ''/health'')) = None"
    by (simp add: health_router_def router_Handle_def lookup_Handle lookup_empty router_empty_def
        request_def)
  have m: "methods_with_path (router_routes health_router) (URL_Path (request ''POST'' ''/health''))
      = ''GET'' # []"
    by (simp add: health_router_def router_Handle_def Handle_routes_def router_empty_def
        request_def methods_with_path_def)
  have nd: "\<not> detailed defaultLogger"
    by (simp add: detailed_def defaultLogger_def LogInfo_def LogDebug_def)
  show ?thesis
    unfolding serve_method_not_allowed [OF l m] SendDetailedError_eq payload_plain [OF nd]
    by (simp add: new_writer_def request_def example_env_def example_StatusText_def
        omitempty_string_def msg_405_def)
qed

text \<open>
  C3 as stated fails twice: with the default logger the 405 response has no
  \<open>details.allowed_methods\<close>, and in detailed mode the list follows the order in which
  the route map is visited, here \<open>POST, GET\<close>, which is not sorted.
\<close>

theorem C3_counterexample:
  "router_ServeHTTP defaultLogger example_env health_router new_writer (request ''POST'' ''/health'')
     = Returned \<lparr>ctx_Request = request ''POST'' ''/health'',
         Writer = \<lparr>header = [''Content-Type'' \<mapsto> ''application/json''],
                    codes = [405],
                    written = [JObject [(''error'', JString ''Method Not Allowed''),
                                        (''message'', JString msg_405),
                                        (''path'', JString ''/health''),
                                        (''method'', JString ''POST''),
                                        (''timestamp'', JString ''2025-01-02T03:04:05Z''),
                                        (''code'', JInt 405)]]\<rparr>,
         ctx_Params = Map.empty\<rparr>
   \<and> written (Writer (outcome_context
     (router_ServeHTTP debugLogger example_env
        (router_Handle (router_Handle router_empty ''POST'' ''/x'' (types_reply ''created''))
           ''GET'' ''/x'' (types_reply ''ok''))
        new_writer (request ''DELETE'' ''/x''))))
   = [JObject [(''error'', JString ''Method Not Allowed''),
               (''message'', JString msg_405),
               (''path'', JString ''/x''),
               (''method'', JString ''DELETE''),
               (''timestamp'', JString ''2025-01-02T03:04:05Z''),
               (''code'', JInt 405),
               (''details'', JObject [(''allowed_methods'', JArray [JString ''POST'', JString ''GET'']),
                                      (''suggestion'', JString ''Essayez avec: POST'')]),
               (''headers'', JObject [(''User-Agent'', JString []),
                                      (''Content-Type'', JString []),
                                      (''Authorization'', JString []),
                                      (''Origin'', JString [])])]]"
  using default_logger_sends_no_details allowed_methods_in_table_order by (intro conjI)

text \<open>
  C3, amended. For every request whose path is registered under at least one method but
  not under the request's method, the application's router writes one 405 response with
  the keys \<open>error, message, path, method, timestamp, code\<close>. The body has \<open>details\<close>
  only when the logger is in detailed mode (\<open>EnableDetailedErrors\<close> and
  \<open>Level \<le> LogDebug\<close>); then \<open>details.allowed_methods\<close> lists the methods that have
  a route for the path, each once, in the order in which the route map is visited, which
  Go does not fix and which need not be sorted.
\<close>

theorem C3_method_not_allowed:
  assumes "lookup_handler (router_routes r) (http_Request.Method req) (URL_Path req) = None"
    and "methods_with_path (router_routes r) (URL_Path req) \<noteq> []"
    and "distinct (map fst (router_routes r))"
  shows "\<exists>payload.
      router_ServeHTTP gl e r w req =
        Returned \<lparr>ctx_Request = req,
          Writer = \<lparr>header = (header w)(''Content-Type'' \<mapsto> ''application/json''),
                     codes = codes w @ [405], written = written w @ [payload]\<rparr>,
          ctx_Params = Map.empty\<rparr>
      \<and> required_keys \<subseteq> json_keys payload
      \<and> json_member payload ''code'' = Some (JInt 405)
      \<and> (if detailed gl
          then \<exists>details. json_member payload ''details'' = Some details
                 \<and> json_member details ''allowed_methods''
                     = Some (JArray (map JString (methods_with_path (router_routes r) (URL_Path req))))
          else json_member payload ''details'' = None)
      \<and> set (methods_with_path (router_routes r) (URL_Path req))
          = {m. lookup_handler (router_routes r) m (URL_Path req) \<noteq> None}
      \<and> distinct (methods_with_path (router_routes r) (URL_Path req))"
proof -
  obtain first others where ms: "methods_with_path (router_routes r) (URL_Path req) = first # others"
    using assms(2) by (cases "methods_with_path (router_routes r) (URL_Path req)") auto
  let ?details = "JObject [(''allowed_methods'', JArray (map JString (first # others))),
                           (''suggestion'', JString (''Essayez avec: '' @ first))]"
  let ?payload = "error_payload gl e req 405 msg_405 (Some ?details)"
  have run: "router_ServeHTTP gl e r w req =
        Returned \<lparr>ctx_Request = req,
          Writer = \<lparr>header = (header w)(''Content-Type'' \<mapsto> ''application/json''),
                     codes = codes w @ [405], written = written w @ [?payload]\<rparr>,
          ctx_Params = Map.empty\<rparr>"
    by (simp add: serve_method_not_allowed [OF assms(1) ms] SendDetailedError_eq)
  have keys: "required_keys \<subseteq> json_keys ?payload"
    by (rule payload_keys [OF msg_405_nonempty])
  have code: "json_member ?payload ''code'' = Some (JInt 405)"
    by (simp add: payload_code)
  have det: "if detailed gl
          then \<exists>details. json_member ?payload ''details'' = Some details
                 \<and> json_member details ''allowed_methods''
                     = Some (JArray (map JString (methods_with_path (router_routes r) (URL_Path req))))
          else json_member ?payload ''details'' = None"
    by (simp add: payload_details ms)
  from run keys code det methods_with_path_set [OF assms(3)] methods_with_path_distinct [OF assms(3)]
  show ?thesis by blast
qed

theorem C3_witness:
  "\<exists>payload.
      router_ServeHTTP debugLogger example_env health_router new_writer (request ''POST'' ''/health'') =
        Returned \<lparr>ctx_Request = request ''POST'' ''/health'',
          Writer = \<lparr>header = [''Content-Type'' \<mapsto> ''application/json''],
                     codes = [405], written = [payload]\<rparr>,
          ctx_Params = Map.empty\<rparr>
      \<and> required_keys \<subseteq> json_keys payload
      \<and> (\<exists>details. json_member payload ''details'' = Some details
           \<and> json_member details ''allowed_methods'' = Some (JArray [JString ''GET'']))"
proof -
  have l: "lookup_handler (router_routes health_router)
      (http_Request.Method (request ''POST'' ''/health'')) (URL_Path (request ''POST'' ''/health'')) = None"
    by (simp add: health_router_def router_Handle_def lookup_Handle lookup_empty router_empty_def
        request_def)
  have m: "methods_with_path (router_routes health_router) (URL_Path (request ''POST'' ''/health''))
      = [''GET'']"
    by (simp add: health_router_def router_Handle_def Handle_routes_def router_empty_def
        request_def methods_with_path_def)
  then have ne: "methods_with_path (router_routes health_router) (URL_Path (request ''POST'' ''/health'')) \<noteq> []"
    by simp
  have d: "distinct (map fst (router_routes health_router))"
    by (simp add: health_router_def router_Handle_def Handle_routes_def router_empty_def)
  have dt: "detailed debugLogger"
    by (simp add: detailed_def debugLogger_def)
  from C3_method_not_allowed [OF l ne d, of debugLogger example_env new_writer]
  obtain payload where
    run: "router_ServeHTTP debugLogger example_env health_router new_writer (request ''POST'' ''/health'') =
        Returned \<lparr>ctx_Request = request ''POST'' ''/health'',
          Writer = \<lparr>header = (header new_writer)(''Content-Type'' \<mapsto> ''application/json''),
                     codes = codes new_writer @ [405], written = written new_writer @ [payload]\<rparr>,
          ctx_Params = Map.empty\<rparr>"
    and keys: "required_keys \<subseteq> json_keys payload"
    and det: "if detailed debugLogger
          then \<exists>details. json_member payload ''details'' = Some details
                 \<and> json_member details ''allowed_methods''
                     = Some (JArray (map JString (methods_with_path (router_routes health_router)
                          (URL_Path (request ''POST'' ''/health'')))))
          else json_member payload ''details'' = None"
    by blast
  from det dt obtain details where
    "json_member payload ''details'' = Some details"
    "json_member details ''allowed_methods'' = Some (JArray [JString ''GET''])"
    unfolding m by auto
  moreover have "router_ServeHTTP debugLogger example_env health_router new_writer (request ''POST'' ''/health'') =
        Returned \<lparr>ctx_Request = request ''POST'' ''/health'',
          Writer = \<lparr>header = [''Content-Type'' \<mapsto> ''application/json''],
                     codes = [405], written = [payload]\<rparr>,
          ctx_Params = Map.empty\<rparr>"
    unfolding run by (simp add: new_writer_def)
  ultimately show ?thesis
    using keys by blast
qed

text \<open>
  The router of package gofsen has no 405: a request for a path registered under another
  method only finds no route and is answered with 404.
\<close>

lemma gofsen_other_method_is_404:
  "codes (ResponseWriter (outcome_context
     (ServeHTTP (New\<lparr>routes := [static_route ''/health'' h]\<rparr>) new_writer
        (request ''POST'' ''/health'')))) = [404]"
proof -
  have "findRoute (New\<lparr>routes := [static_route ''/health'' h]\<rparr>)
      (http_Request.Method (request ''POST'' ''/health'')) (URL_Path (request ''POST'' ''/health''))
      = None"
    by (simp add: findRoute_def New_def request_def findRoute_loop_step static_route_def)
  from not_found_response [OF this, of new_writer] show ?thesis
    by (simp add: new_writer_def)
qed

section \<open>Recovery from a panic\<close>

text \<open>
  With the logger the package starts with, the response that \<open>RecoveryMiddleware\<close>
  writes for a panicking handler has status 500 and no \<open>details\<close>.
\<close>

lemma default_logger_recovery_no_details:
  "router_ServeHTTP defaultLogger example_env (recovery_router defaultLogger) new_writer
      (request ''GET'' ''/test/recovery'')
     = Returned \<lparr>ctx_Request = request ''GET'' ''/test/recovery'',
         Writer = \<lparr>header = [''Content-Type'' \<mapsto> ''application/json''],
                    codes = [500],
                    written = [JObject [(''error'', JString ''Internal Server Error''),
                                        (''message'', JString ''Erreur interne du serveur''),
                                        (''path'', JString ''/test/recovery''),
                                        (''method'', JString ''GET''),
                                        (''timestamp'', JString ''2025-01-02T03:04:05Z''),
                                        (''code'', JInt 500)]]\<rparr>,
         ctx_Params = Map.empty\<rparr>"
proof -
  have l: "lookup_handler (router_routes (recovery_router defaultLogger))
      (http_Request.Method (request ''GET'' ''/test/recovery''))
      (URL_Path (request ''GET'' ''/test/recovery'')) = Some (types_panicking ''boom'')"
    by (simp add: recovery_router_def router_Handle_def lookup_Handle request_def)
  have mw: "router_middlewares (recovery_router defaultLogger)
      = [RecoveryMiddleware defaultLogger example_env, LoggerMiddleware]"
    by (simp add: recovery_router_def router_Handle_def router_Use_def router_empty_def)
  have nd: "\<not> detailed defaultLogger"
    by (simp add: detailed_def defaultLogger_def LogInfo_def LogDebug_def)
  show ?thesis
    unfolding serve_found [OF l] mw wrap_foldr
    by (simp add: RecoveryMiddleware_def LoggerMiddleware_def types_panicking_def
        SendDetailedError_eq payload_plain [OF nd] new_writer_def request_def example_env_def
        example_StatusText_def omitempty_string_def)
qed

text \<open>
  A handler that writes a response and then panics leaves two responses on the writer,
  its own and the one of \<open>RecoveryMiddleware\<close>.
\<close>

lemma write_before_panic_two_responses:
  "codes (Writer (outcome_context
      (RecoveryMiddleware debugLogger example_env write_then_panic no_auth_context)))
     = [200, 500]
   \<and> length (written (Writer (outcome_context
      (RecoveryMiddleware debugLogger example_env write_then_panic no_auth_context)))) = 2"
  by (simp add: RecoveryMiddleware_def write_then_panic_def SendDetailedError_eq types_JSON_def
      Encode_def WriteHeader_def Header_Set_def no_auth_context_def new_writer_def)

text \<open>
  The test \<open>TestRecovery\<close> of package gofsen, end to end: \<open>Recovery\<close> as the only global
  middleware, a handler that panics.
\<close>

lemma gofsen_recovery_dispatch:
  "GET (Use New (Recovery clock)) ''/panic'' (panicking ''boom'')
     = Inr (panic_app clock)
   \<and> ResponseWriter (outcome_context
        (ServeHTTP (panic_app clock) new_writer (request ''GET'' ''/panic'')))
     = \<lparr>header = [''Content-Type'' \<mapsto> ''application/json''], codes = [500],
        written = [JObject [(''error'', JString ''Internal Server Error''),
                            (''status'', JInt 500),
                            (''path'', JString ''/panic''),
                            (''method'', JString ''GET''),
                            (''time'', JString clock)]]\<rparr>"
proof -
  let ?app = "panic_app clock"
  have reg: "GET (Use New (Recovery clock)) ''/panic'' (panicking ''boom'') = Inr ?app"
    by (simp add: GET_static Use_def New_def panic_app_def)
  have res: "findRoute ?app ''GET'' ''/panic''
      = Some (static_route ''/panic'' (panicking ''boom''), Map.empty)"
    by (simp add: findRoute_def New_def panic_app_def find_static_route)
  have mw: "middlewares ?app = [Recovery clock]"
    by (simp add: New_def panic_app_def)
  have "ResponseWriter (outcome_context (ServeHTTP ?app new_writer (request ''GET'' ''/panic'')))
     = \<lparr>header = [''Content-Type'' \<mapsto> ''application/json''], codes = [500],
        written = [JObject [(''error'', JString ''Internal Server Error''),
                            (''status'', JInt 500),
                            (''path'', JString ''/panic''),
                            (''method'', JString ''GET''),
                            (''time'', JString clock)]]\<rparr>"
    by (simp add: ServeHTTP_def request_def res mw Next.simps static_route_def Recovery_def
        panicking_def gofsen_Error_eq new_writer_def)
  with reg show ?thesis by blast
qed

text \<open>
  C6 as stated fails: with the default logger the 500 response of \<open>RecoveryMiddleware\<close>
  has no \<open>details.panic_message\<close>; a handler that wrote before it panicked leaves two
  responses; and \<open>Recovery\<close> of package gofsen answers with
  \<open>{error, status, path, method, time}\<close>, in which the panic value does not occur.
\<close>

theorem C6_counterexample:
  "router_ServeHTTP defaultLogger example_env (recovery_router defaultLogger) new_writer
      (request ''GET'' ''/test/recovery'')
     = Returned \<lparr>ctx_Request = request ''GET'' ''/test/recovery'',
         Writer = \<lparr>header = [''Content-Type'' \<mapsto> ''application/json''],
                    codes = [500],
                    written = [JObject [(''error'', JString ''Internal Server Error''),
                                        (''message'', JString ''Erreur interne du serveur''),
                                        (''path'', JString ''/test/recovery''),
                                        (''method'', JString ''GET''),
                                        (''timestamp'', JString ''2025-01-02T03:04:05Z''),
                                        (''code'', JInt 500)]]\<rparr>,
         ctx_Params = Map.empty\<rparr>
   \<and> codes (Writer (outcome_context
         (RecoveryMiddleware debugLogger example_env write_then_panic no_auth_context)))
       = [200, 500]
   \<and> length (written (Writer (outcome_context
         (RecoveryMiddleware debugLogger example_env write_then_panic no_auth_context)))) = 2
   \<and> GET (Use New (Recovery ''2025-01-02T03:04:05Z'')) ''/panic'' (panicking ''boom'')
     = Inr (panic_app ''2025-01-02T03:04:05Z'')
   \<and> ResponseWriter (outcome_context
        (ServeHTTP (panic_app ''2025-01-02T03:04:05Z'') new_writer (request ''GET'' ''/panic'')))
     = \<lparr>header = [''Content-Type'' \<mapsto> ''application/json''], codes = [500],
        written = [JObject [(''error'', JString ''Internal Server Error''),
                            (''status'', JInt 500),
                            (''path'', JString ''/panic''),
                            (''method'', JString ''GET''),
                            (''time'', JString ''2025-01-02T03:04:05Z'')]]\<rparr>"
  using default_logger_recovery_no_details write_before_panic_two_responses
    gofsen_recovery_dispatch [of "''2025-01-02T03:04:05Z''"]
  by (intro conjI) simp_all

text \<open>
  C6, amended. When the chain below \<open>RecoveryMiddleware\<close> (inner middleware and handler)
  panics and nothing was written before the panic, \<open>RecoveryMiddleware\<close> returns normally
  with exactly one response written, of status 500 and with the keys
  \<open>error, message, path, method, timestamp, code\<close>; so does a dispatch of the
  application's router whose first global middleware is \<open>RecoveryMiddleware\<close>. The body
  has \<open>details\<close>, with \<open>details.panic_message\<close> equal to the panic value's message, only
  when the logger is in detailed mode (\<open>EnableDetailedErrors\<close> and
  \<open>Level \<le> LogDebug\<close>). \<open>Recovery\<close> of package gofsen answers the panic with exactly
  one response of status 500 whose body is
  \<open>{error: "Internal Server Error", status, path, method, time}\<close>, without the panic
  value.
\<close>

theorem C6_recovery_response:
  "(below ctx = Panicked v ctx' \<and> codes (Writer ctx') = [] \<and> written (Writer ctx') = []
     \<longrightarrow> (\<exists>payload.
           RecoveryMiddleware gl e below ctx =
             Returned (ctx'\<lparr>Writer :=
               \<lparr>header = (header (Writer ctx'))(''Content-Type'' \<mapsto> ''application/json''),
                codes = [500], written = [payload]\<rparr>\<rparr>)
           \<and> required_keys \<subseteq> json_keys payload
           \<and> json_member payload ''code'' = Some (JInt 500)
           \<and> (if detailed gl
               then \<exists>details. json_member payload ''details'' = Some details
                      \<and> json_member details ''panic_message'' = Some (JString v)
               else json_member payload ''details'' = None)))
   \<and> (router_middlewares r = RecoveryMiddleware gl e # inner
      \<and> lookup_handler (router_routes r) (http_Request.Method req) (URL_Path req) = Some h
      \<and> wrap inner h \<lparr>ctx_Request = req, Writer = w, ctx_Params = Map.empty\<rparr> = Panicked v ctx'
      \<and> codes (Writer ctx') = [] \<and> written (Writer ctx') = []
     \<longrightarrow> (\<exists>payload.
           router_ServeHTTP gl e r w req =
             Returned (ctx'\<lparr>Writer :=
               \<lparr>header = (header (Writer ctx'))(''Content-Type'' \<mapsto> ''application/json''),
                codes = [500], written = [payload]\<rparr>\<rparr>)
           \<and> required_keys \<subseteq> json_keys payload
           \<and> json_member payload ''code'' = Some (JInt 500)
           \<and> (if detailed gl
               then \<exists>details. json_member payload ''details'' = Some details
                      \<and> json_member details ''panic_message'' = Some (JString v)
               else json_member payload ''details'' = None)))
   \<and> (gnext c = Panicked v c' \<and> codes (ResponseWriter c') = [] \<and> written (ResponseWriter c') = []
     \<longrightarrow> Recovery clock gnext c =
           Returned (c'\<lparr>ResponseWriter :=
             \<lparr>header = (header (ResponseWriter c'))(''Content-Type'' \<mapsto> ''application/json''),
              codes = [500],
              written = [JObject [(''error'', JString ''Internal Server Error''),
                                  (''status'', JInt 500),
                                  (''path'', JString (URL_Path (Request c'))),
                                  (''method'', JString (http_Request.Method (Request c'))),
                                  (''time'', JString clock)]]\<rparr>\<rparr>))"
proof -
  have boundary: "\<exists>payload.
           RecoveryMiddleware gl e k x =
             Returned (ctx'\<lparr>Writer :=
               \<lparr>header = (header (Writer ctx'))(''Content-Type'' \<mapsto> ''application/json''),
                codes = [500], written = [payload]\<rparr>\<rparr>)
           \<and> required_keys \<subseteq> json_keys payload
           \<and> json_member payload ''code'' = Some (JInt 500)
           \<and> (if detailed gl
               then \<exists>details. json_member payload ''details'' = Some details
                      \<and> json_member details ''panic_message'' = Some (JString v)
               else json_member payload ''details'' = None)"
    if p: "k x = Panicked v ctx'" and c0: "codes (Writer ctx') = []" and w0: "written (Writer ctx') = []"
    for k x
  proof -
    let ?details = "JObject [(''panic_message'', JString v),
                             (''stack_trace'', JString (stack e)),
                             (''recovery_note'', JString recovery_note)]"
    let ?payload = "error_payload gl e (ctx_Request ctx') 500 ''Erreur interne du serveur'' (Some ?details)"
    have run: "RecoveryMiddleware gl e k x =
             Returned (ctx'\<lparr>Writer :=
               \<lparr>header = (header (Writer ctx'))(''Content-Type'' \<mapsto> ''application/json''),
                codes = [500], written = [?payload]\<rparr>\<rparr>)"
      by (simp add: RecoveryMiddleware_def p SendDetailedError_eq c0 w0)
    have keys: "required_keys \<subseteq> json_keys ?payload"
      by (rule payload_keys) simp
    have code: "json_member ?payload ''code'' = Some (JInt 500)"
      by (simp add: payload_code)
    have det: "if detailed gl
               then \<exists>details. json_member ?payload ''details'' = Some details
                      \<and> json_member details ''panic_message'' = Some (JString v)
               else json_member ?payload ''details'' = None"
      by (simp add: payload_details)
    from run keys code det show ?thesis by blast
  qed
  have dispatch: "\<exists>payload.
           router_ServeHTTP gl e r w req =
             Returned (ctx'\<lparr>Writer :=
               \<lparr>header = (header (Writer ctx'))(''Content-Type'' \<mapsto> ''application/json''),
                codes = [500], written = [payload]\<rparr>\<rparr>)
           \<and> required_keys \<subseteq> json_keys payload
           \<and> json_member payload ''code'' = Some (JInt 500)
           \<and> (if detailed gl
               then \<exists>details. json_member payload ''details'' = Some details
                      \<and> json_member details ''panic_message'' = Some (JString v)
               else json_member payload ''details'' = None)"
    if mw: "router_middlewares r = RecoveryMiddleware gl e # inner"
      and l: "lookup_handler (router_routes r) (http_Request.Method req) (URL_Path req) = Some h"
      and p: "wrap inner h \<lparr>ctx_Request = req, Writer = w, ctx_Params = Map.empty\<rparr> = Panicked v ctx'"
      and c0: "codes (Writer ctx') = []" and w0: "written (Writer ctx') = []"
  proof -
    have "router_ServeHTTP gl e r w req
        = RecoveryMiddleware gl e (wrap inner h)
            \<lparr>ctx_Request = req, Writer = w, ctx_Params = Map.empty\<rparr>"
      unfolding serve_found [OF l] mw by (simp add: wrap_foldr)
    with boundary [of "wrap inner h" "\<lparr>ctx_Request = req, Writer = w, ctx_Params = Map.empty\<rparr>",
        OF p c0 w0]
    show ?thesis by simp
  qed
  have public: "Recovery clock gnext c =
           Returned (c'\<lparr>ResponseWriter :=
             \<lparr>header = (header (ResponseWriter c'))(''Content-Type'' \<mapsto> ''application/json''),
              codes = [500],
              written = [JObject [(''error'', JString ''Internal Server Error''),
                                  (''status'', JInt 500),
                                  (''path'', JString (URL_Path (Request c'))),
                                  (''method'', JString (http_Request.Method (Request c'))),
                                  (''time'', JString clock)]]\<rparr>\<rparr>)"
    if "gnext c = Panicked v c'" "codes (ResponseWriter c') = []" "written (ResponseWriter c') = []"
    using that by (simp add: Recovery_def gofsen_Error_eq)
  from boundary [of below ctx] dispatch public show ?thesis by blast
qed

theorem C6_witness:
  "(\<exists>payload.
      RecoveryMiddleware debugLogger example_env (types_panicking ''boom'')
          \<lparr>ctx_Request = request ''GET'' ''/test/recovery'', Writer = new_writer,
           ctx_Params = Map.empty\<rparr> =
        Returned \<lparr>ctx_Request = request ''GET'' ''/test/recovery'',
          Writer = \<lparr>header = [''Content-Type'' \<mapsto> ''application/json''],
                     codes = [500], written = [payload]\<rparr>,
          ctx_Params = Map.empty\<rparr>
      \<and> (\<exists>details. json_member payload ''details'' = Some details
             \<and> json_member details ''panic_message'' = Some (JString ''boom'')))
   \<and> (\<exists>payload.
      router_ServeHTTP debugLogger example_env (recovery_router debugLogger) new_writer
          (request ''GET'' ''/test/recovery'') =
        Returned \<lparr>ctx_Request = request ''GET'' ''/test/recovery'',
          Writer = \<lparr>header = [''Content-Type'' \<mapsto> ''application/json''],
                     codes = [500], written = [payload]\<rparr>,
          ctx_Params = Map.empty\<rparr>
      \<and> json_member payload ''code'' = Some (JInt 500)
      \<and> (\<exists>details. json_member payload ''details'' = Some details
             \<and> json_member details ''panic_message'' = Some (JString ''boom'')))
   \<and> written (ResponseWriter (outcome_context
         (Recovery ''2025-01-02T03:04:05Z'' (panicking ''boom'' Returned) panic_context)))
       = [JObject [(''error'', JString ''Internal Server Error''),
                   (''status'', JInt 500),
                   (''path'', JString ''/panic''),
                   (''method'', JString ''GET''),
                   (''time'', JString ''2025-01-02T03:04:05Z'')]]"
proof -
  let ?ctx = "\<lparr>ctx_Request = request ''GET'' ''/test/recovery'', Writer = new_writer,
               ctx_Params = Map.empty\<rparr>"
  have mw: "router_middlewares (recovery_router debugLogger)
      = RecoveryMiddleware debugLogger example_env # [LoggerMiddleware]"
    by (simp add: recovery_router_def router_Handle_def router_Use_def router_empty_def)
  have l: "lookup_handler (router_routes (recovery_router debugLogger))
      (http_Request.Method (request ''GET'' ''/test/recovery''))
      (URL_Path (request ''GET'' ''/test/recovery'')) = Some (types_panicking ''boom'')"
    by (simp add: recovery_router_def router_Handle_def lookup_Handle request_def)
  have p: "wrap [LoggerMiddleware] (types_panicking ''boom'') ?ctx = Panicked ''boom'' ?ctx"
    by (simp add: wrap_foldr LoggerMiddleware_def types_panicking_def)
  have c0: "codes (Writer ?ctx) = []" and w0: "written (Writer ?ctx) = []"
    by (simp_all add: new_writer_def)
  have dt: "detailed debugLogger"
    by (simp add: detailed_def debugLogger_def)
  have g: "panicking ''boom'' Returned panic_context = Panicked ''boom'' panic_context"
    by (simp add: panicking_def)
  have gc: "codes (ResponseWriter panic_context) = []" and gw: "written (ResponseWriter panic_context) = []"
    by (simp_all add: panic_context_def new_writer_def)
  note inst = C6_recovery_response [where r = "recovery_router debugLogger" and gl = debugLogger
      and e = example_env and inner = "[LoggerMiddleware]"
      and req = "request ''GET'' ''/test/recovery''" and h = "types_panicking ''boom''"
      and w = new_writer and v = "''boom''" and ctx' = ?ctx
      and below = "types_panicking ''boom''" and ctx = ?ctx
      and gnext = "panicking ''boom'' Returned" and c = panic_context and c' = panic_context
      and clock = "''2025-01-02T03:04:05Z''"]
  from inst mw l p c0 w0 obtain payload where
    run: "router_ServeHTTP debugLogger example_env (recovery_router debugLogger) new_writer
          (request ''GET'' ''/test/recovery'') =
        Returned (?ctx\<lparr>Writer :=
               \<lparr>header = (header (Writer ?ctx))(''Content-Type'' \<mapsto> ''application/json''),
                codes = [500], written = [payload]\<rparr>\<rparr>)"
    and code: "json_member payload ''code'' = Some (JInt 500)"
    and det: "if detailed debugLogger
               then \<exists>details. json_member payload ''details'' = Some details
                      \<and> json_member details ''panic_message'' = Some (JString ''boom'')
               else json_member payload ''details'' = None"
    by blast
  from det dt obtain details where
    d: "json_member payload ''details'' = Some details"
       "json_member details ''panic_message'' = Some (JString ''boom'')"
    by auto
  have run': "router_ServeHTTP debugLogger example_env (recovery_router debugLogger) new_writer
          (request ''GET'' ''/test/recovery'') =
        Returned \<lparr>ctx_Request = request ''GET'' ''/test/recovery'',
          Writer = \<lparr>header = [''Content-Type'' \<mapsto> ''application/json''],
                     codes = [500], written = [payload]\<rparr>,
          ctx_Params = Map.empty\<rparr>"
    unfolding run by (simp add: new_writer_def)
  from inst g gc gw have
    "Recovery ''2025-01-02T03:04:05Z'' (panicking ''boom'' Returned) panic_context =
       Returned (panic_context\<lparr>ResponseWriter :=
             \<lparr>header = (header (ResponseWriter panic_context))(''Content-Type'' \<mapsto> ''application/json''),
              codes = [500],
              written = [JObject [(''error'', JString ''Internal Server Error''),
                                  (''status'', JInt 500),
                                  (''path'', JString (URL_Path (Request panic_context))),
                                  (''method'', JString (http_Request.Method (Request panic_context))),
                                  (''time'', JString ''2025-01-02T03:04:05Z'')]]\<rparr>\<rparr>)"
    by blast
  then have pub: "written (ResponseWriter (outcome_context
         (Recovery ''2025-01-02T03:04:05Z'' (panicking ''boom'' Returned) panic_context)))
       = [JObject [(''error'', JString ''Internal Server Error''),
                   (''status'', JInt 500),
                   (''path'', JString ''/panic''),
                   (''method'', JString ''GET''),
                   (''time'', JString ''2025-01-02T03:04:05Z'')]]"
    by (simp add: panic_context_def request_def)
  have b: "types_panicking ''boom'' ?ctx = Panicked ''boom'' ?ctx"
    by (simp add: types_panicking_def)
  from inst b c0 w0 obtain payload' where
    brun: "RecoveryMiddleware debugLogger example_env (types_panicking ''boom'') ?ctx =
        Returned (?ctx\<lparr>Writer :=
               \<lparr>header = (header (Writer ?ctx))(''Content-Type'' \<mapsto> ''application/json''),
                codes = [500], written = [payload']\<rparr>\<rparr>)"
    and bdet: "if detailed debugLogger
               then \<exists>details. json_member payload' ''details'' = Some details
                      \<and> json_member details ''panic_message'' = Some (JString ''boom'')
               else json_member payload' ''details'' = None"
    by blast
  from bdet dt obtain details' where
    bd: "json_member payload' ''details'' = Some details'"
        "json_member details' ''panic_message'' = Some (JString ''boom'')"
    by auto
  have brun': "RecoveryMiddleware debugLogger example_env (types_panicking ''boom'') ?ctx =
        Returned \<lparr>ctx_Request = request ''GET'' ''/test/recovery'',
          Writer = \<lparr>header = [''Content-Type'' \<mapsto> ''application/json''],
                     codes = [500], written = [payload']\<rparr>,
          ctx_Params = Map.empty\<rparr>"
    unfolding brun by (simp add: new_writer_def)
  from brun' bd have first: "\<exists>payload.
      RecoveryMiddleware debugLogger example_env (types_panicking ''boom'') ?ctx =
        Returned \<lparr>ctx_Request = request ''GET'' ''/test/recovery'',
          Writer = \<lparr>header = [''Content-Type'' \<mapsto> ''application/json''],
                     codes = [500], written = [payload]\<rparr>,
          ctx_Params = Map.empty\<rparr>
      \<and> (\<exists>details. json_member payload ''details'' = Some details
             \<and> json_member details ''panic_message'' = Some (JString ''boom''))"
    by blast
  from run' code d have second: "\<exists>payload.
      router_ServeHTTP debugLogger example_env (recovery_router debugLogger) new_writer
          (request ''GET'' ''/test/recovery'') =
        Returned \<lparr>ctx_Request = request ''GET'' ''/test/recovery'',
          Writer = \<lparr>header = [''Content-Type'' \<mapsto> ''application/json''],
                     codes = [500], written = [payload]\<rparr>,
          ctx_Params = Map.empty\<rparr>
      \<and> json_member payload ''code'' = Some (JInt 500)
      \<and> (\<exists>details. json_member payload ''details'' = Some details
             \<and> json_member details ''panic_message'' = Some (JString ''boom''))"
    by blast
  from first second pub show ?thesis by (intro conjI)
qed

section \<open>CORS\<close>

lemma origin_allowed_iff:
  "origin_allowed origins origin \<longleftrightarrow> ''*'' \<in> set origins \<or> origin \<in> set origins"
  by (induction origins) auto

text \<open>
  C9. \<open>CORSWithConfig\<close> sets \<open>Access-Control-Allow-Origin\<close> exactly when the allow-list
  contains \<open>"*"\<close> or the request's origin: to the echoed origin when the request has
  one, to \<open>"*"\<close> when it has none (as for the list \<open>["*"]\<close> and a request without
  \<open>Origin\<close>). When the origin is in no entry of a list without \<open>"*"\<close> the middleware
  leaves the header as it was, unset on a fresh response. The context with these headers
  is what the middleware passes on to \<open>Next\<close>, or answers with 204 for \<open>OPTIONS\<close>.
\<close>

theorem C9_cors_allow_origin:
  "header (ResponseWriter (cors_headers config c)) ''Access-Control-Allow-Origin''
     = (if ''*'' \<in> set (AllowOrigins config)
           \<or> Header_Get (Request c) ''Origin'' \<in> set (AllowOrigins config)
        then Some (if Header_Get (Request c) ''Origin'' \<noteq> []
                   then Header_Get (Request c) ''Origin'' else ''*'')
        else header (ResponseWriter c) ''Access-Control-Allow-Origin'')
   \<and> CORSWithConfig config next c
       = (if http_Request.Method (Request c) = ''OPTIONS''
          then Returned (Status (cors_headers config c) 204)
          else next (cors_headers config c))
   \<and> (Header_Get (Request c) ''Origin'' \<noteq> []
        \<and> header (ResponseWriter c) ''Access-Control-Allow-Origin'' = None
      \<longrightarrow> (header (ResponseWriter (cors_headers config c)) ''Access-Control-Allow-Origin''
             = Some (Header_Get (Request c) ''Origin'')
           \<longleftrightarrow> ''*'' \<in> set (AllowOrigins config)
               \<or> Header_Get (Request c) ''Origin'' \<in> set (AllowOrigins config)))
   \<and> (AllowOrigins config = [''*''] \<and> Header_Get (Request c) ''Origin'' = []
      \<longrightarrow> header (ResponseWriter (cors_headers config c)) ''Access-Control-Allow-Origin''
            = Some ''*'')
   \<and> (''*'' \<notin> set (AllowOrigins config)
        \<and> Header_Get (Request c) ''Origin'' \<notin> set (AllowOrigins config)
      \<longrightarrow> header (ResponseWriter (cors_headers config c)) ''Access-Control-Allow-Origin''
            = header (ResponseWriter c) ''Access-Control-Allow-Origin'')"
proof -
  have gen: "header (ResponseWriter (cors_headers config c)) ''Access-Control-Allow-Origin''
     = (if ''*'' \<in> set (AllowOrigins config)
           \<or> Header_Get (Request c) ''Origin'' \<in> set (AllowOrigins config)
        then Some (if Header_Get (Request c) ''Origin'' \<noteq> []
                   then Header_Get (Request c) ''Origin'' else ''*'')
        else header (ResponseWriter c) ''Access-Control-Allow-Origin'')"
    by (simp add: cors_headers_def Let_def set_header_def Header_Set_def origin_allowed_iff)
  have mw: "CORSWithConfig config next c
       = (if http_Request.Method (Request c) = ''OPTIONS''
          then Returned (Status (cors_headers config c) 204)
          else next (cors_headers config c))"
    by (simp add: CORSWithConfig_def Let_def cors_headers_def set_header_def)
  have echo: "Header_Get (Request c) ''Origin'' \<noteq> []
        \<and> header (ResponseWriter c) ''Access-Control-Allow-Origin'' = None
      \<longrightarrow> (header (ResponseWriter (cors_headers config c)) ''Access-Control-Allow-Origin''
             = Some (Header_Get (Request c) ''Origin'')
           \<longleftrightarrow> ''*'' \<in> set (AllowOrigins config)
               \<or> Header_Get (Request c) ''Origin'' \<in> set (AllowOrigins config))"
    unfolding gen by simp
  have star: "AllowOrigins config = [''*''] \<and> Header_Get (Request c) ''Origin'' = []
      \<longrightarrow> header (ResponseWriter (cors_headers config c)) ''Access-Control-Allow-Origin''
            = Some ''*''"
    unfolding gen by simp
  have unset: "''*'' \<notin> set (AllowOrigins config)
        \<and> Header_Get (Request c) ''Origin'' \<notin> set (AllowOrigins config)
      \<longrightarrow> header (ResponseWriter (cors_headers config c)) ''Access-Control-Allow-Origin''
            = header (ResponseWriter c) ''Access-Control-Allow-Origin''"
    unfolding gen by simp
  from gen mw echo star unset show ?thesis by (intro conjI)
qed

theorem C9_witness:
  "header (ResponseWriter (cors_headers only_a_com (origin_context ''https://a.com'')))
      ''Access-Control-Allow-Origin'' = Some ''https://a.com''
   \<and> header (ResponseWriter (cors_headers only_a_com (origin_context ''https://b.com'')))
      ''Access-Control-Allow-Origin'' = None
   \<and> header (ResponseWriter (cors_headers wildcard no_origin_context))
      ''Access-Control-Allow-Origin'' = Some ''*''"
proof -
  have oa: "Header_Get (Request (origin_context ''https://a.com'')) ''Origin'' = ''https://a.com''"
    by (simp add: origin_context_def Header_Get_def)
  have ob: "Header_Get (Request (origin_context ''https://b.com'')) ''Origin'' = ''https://b.com''"
    by (simp add: origin_context_def Header_Get_def)
  have on: "Header_Get (Request no_origin_context) ''Origin'' = []"
    by (simp add: no_origin_context_def request_def Header_Get_def)
  have fresh: "header (ResponseWriter (origin_context origin)) ''Access-Control-Allow-Origin'' = None"
    for origin
    by (simp add: origin_context_def new_writer_def)
  have la: "AllowOrigins only_a_com = [''https://a.com'']"
    by (simp add: only_a_com_def)
  have lw: "AllowOrigins wildcard = [''*'']"
    by (simp add: wildcard_def)
  have a: "header (ResponseWriter (cors_headers only_a_com (origin_context ''https://a.com'')))
      ''Access-Control-Allow-Origin'' = Some ''https://a.com''"
    using C9_cors_allow_origin [of only_a_com "origin_context ''https://a.com''"] fresh
    by (simp add: oa la)
  have b: "header (ResponseWriter (cors_headers only_a_com (origin_context ''https://b.com'')))
      ''Access-Control-Allow-Origin'' = None"
    using C9_cors_allow_origin [of only_a_com "origin_context ''https://b.com''"] fresh
    by (simp add: ob la)
  have w: "header (ResponseWriter (cors_headers wildcard no_origin_context))
      ''Access-Control-Allow-Origin'' = Some ''*''"
    using C9_cors_allow_origin [of wildcard no_origin_context]
    by (simp add: on lw)
  from a b w show ?thesis by (intro conjI)
qed

end
